theory Spec2Isabelle
  imports Main
begin

section \<open>Strings and numbers as the Go code formats them\<close>

text \<open>
  Go strings are byte sequences; they are modelled as \<open>string\<close> (a \<open>char list\<close>).
  \<open>strings.ToLower\<close> is modelled on the ASCII letters, which is what it does on the
  type names a database driver reports; other bytes are left as they are.
\<close>

definition lower_char :: "char \<Rightarrow> char" where
  "lower_char c =
     (case map_of (zip ''ABCDEFGHIJKLMNOPQRSTUVWXYZ'' ''abcdefghijklmnopqrstuvwxyz'') c of
        Some d \<Rightarrow> d
      | None \<Rightarrow> c)"

definition ToLower :: "string \<Rightarrow> string" where
  "ToLower s = map lower_char s"

text \<open>\<open>fmt.Sprintf("%d", i)\<close>: the decimal digits of an integer.\<close>

definition digit_char :: "nat \<Rightarrow> char" where
  "digit_char k = ''0123456789'' ! (k mod 10)"

fun digits :: "nat \<Rightarrow> string" where
  "digits n = (if n < 10 then [digit_char n] else digits (n div 10) @ [digit_char (n mod 10)])"

declare digits.simps [simp del]

definition itoa :: "int \<Rightarrow> string" where
  "itoa i = (if i < 0 then CHR ''-'' # digits (nat (- i)) else digits (nat i))"

text \<open>
  \<open>strings.Split(s, sep)\<close> for a separator of one byte (the program splits on \<open>","\<close> and
  \<open>"="\<close>): the result is never empty, and the empty string splits into one empty string.
\<close>

fun Split :: "string \<Rightarrow> char \<Rightarrow> string list" where
  "Split [] sep = [[]]"
| "Split (c # cs) sep =
     (if c = sep then [] # Split cs sep
      else (case Split cs sep of [] \<Rightarrow> [[c]] | x # xs \<Rightarrow> (c # x) # xs))"

text \<open>\<open>strings.Join(elems, sep)\<close>.\<close>

fun Join :: "string list \<Rightarrow> string \<Rightarrow> string" where
  "Join [] sep = []"
| "Join [x] sep = x"
| "Join (x # y # ys) sep = x @ sep @ Join (y # ys) sep"

text \<open>\<open>strings.HasPrefix(s, prefix)\<close>.\<close>

definition HasPrefix :: "string \<Rightarrow> string \<Rightarrow> bool" where
  "HasPrefix s pre = (take (length pre) s = pre)"

text \<open>
  \<open>strings.Replace(s, old, new, -1)\<close> for a non-empty \<open>old\<close>: every non-overlapping
  occurrence, from the left.  The first argument of the helper counts the bytes of a
  matched occurrence that are still to be skipped.
\<close>

fun replace_from :: "nat \<Rightarrow> string \<Rightarrow> string \<Rightarrow> string \<Rightarrow> string" where
  "replace_from k [] old new = []"
| "replace_from (Suc k) (c # cs) old new = replace_from k cs old new"
| "replace_from 0 (c # cs) old new =
     (if HasPrefix (c # cs) old then new @ replace_from (length old - 1) cs old new
      else c # replace_from 0 cs old new)"

definition Replace :: "string \<Rightarrow> string \<Rightarrow> string \<Rightarrow> string" where
  "Replace s old new = (if old = [] then s else replace_from 0 s old new)"

text \<open>A lookup \<open>v, _ := env[key]\<close> that ignores whether the key is set.\<close>

definition the_default :: "'a \<Rightarrow> 'a option \<Rightarrow> 'a" where
  "the_default d x = (case x of Some v \<Rightarrow> v | None \<Rightarrow> d)"

section \<open>Errors\<close>

text \<open>
  Every Go \<open>error\<close> value the program creates or receives.  A \<open>*pq.Error\<close> carries the
  name of its SQLSTATE code (\<open>e.Code.Name()\<close>); any other error of the database layer is a
  \<open>DriverError\<close>.
\<close>

datatype error =
    PqError string
  | DriverError string
  | UnknownType string
  | NonUniqueColumn string
  | MissingEnv string
  | MissingDateFrom
  | MissingDateTo
  | CannotParseDate string
  | UnknownTimeRange string
  | FileError string

section \<open>Schema inference: \<open>dbTypeName\<close>\<close>

text \<open>
  \<open>*sql.ColumnType\<close>: the column name, the driver's type name and the result of
  \<open>Nullable()\<close> (\<open>None\<close> when the driver does not know).
\<close>

record column =
  col_name :: string
  col_dbtype :: string
  col_nullable :: "bool option"

type_synonym env = "string \<rightharpoonup> string"

definition dbTypeName :: "column \<Rightarrow> env \<Rightarrow> error + string" where
  "dbTypeName col env =
     (let guess = (env ''GUESS_TYPE'' \<noteq> None);
          name = ToLower (col_dbtype col)
      in if name \<in> set [''text'', ''bool'', ''date'', ''interval'', ''numeric''] then Inr name
         else if name = ''varchar'' then Inr ''text''
         else if name = ''timestamptz'' then Inr ''timestamp''
         else if name \<in> set [''int8'', ''int16'', ''int32'', ''int64''] then Inr ''bigint''
         else if name = ''float8'' then Inr ''numeric''
         else if guess then Inr name
         else Inl (UnknownType name))"

section \<open>Time values\<close>

text \<open>
  A \<open>time.Time\<close>: the instant in nanoseconds since 1970-01-01T00:00:00Z, and the offset
  of its location in seconds east of UTC at that instant (\<open>0\<close> for \<open>time.UTC\<close>).
  Integers are unbounded here; Go's own representation reaches some 292 billion years
  around the year 1.
\<close>

record gotime =
  unix_ns :: int
  zone :: int

definition UTC :: int where
  "UTC = 0"

subsection \<open>The proleptic Gregorian calendar of package \<open>time\<close>\<close>

definition is_leap :: "int \<Rightarrow> bool" where
  "is_leap y = (y mod 4 = 0 \<and> (y mod 100 \<noteq> 0 \<or> y mod 400 = 0))"

text \<open>Days from 1970-01-01 to the first of January of year \<open>y\<close>.\<close>

definition days_before_year :: "int \<Rightarrow> int" where
  "days_before_year y =
     365 * (y - 1970) + ((y - 1) div 4 - (y - 1) div 100 + (y - 1) div 400) - 477"

text \<open>Days of year \<open>y\<close> before the first of month \<open>m\<close>, for \<open>m\<close> from 1 to 12.\<close>

definition days_before_month :: "int \<Rightarrow> int \<Rightarrow> int" where
  "days_before_month y m =
     [0, 31, 59, 90, 120, 151, 181, 212, 243, 273, 304, 334] ! nat (m - 1)
       + (if is_leap y \<and> 2 < m then 1 else 0)"

definition daysIn :: "int \<Rightarrow> int \<Rightarrow> int" where
  "daysIn m y =
     (if m = 2 \<and> is_leap y then 29
      else [31, 28, 31, 30, 31, 30, 31, 31, 30, 31, 30, 31] ! nat (m - 1))"

text \<open>
  The day number of a date as \<open>time.Date\<close> computes it: a month outside 1 to 12 carries
  into the year, a day outside the month carries on linearly.
\<close>

definition days_from_civil :: "int \<Rightarrow> int \<Rightarrow> int \<Rightarrow> int" where
  "days_from_civil y m d =
     (let y' = y + (m - 1) div 12;
          m' = (m - 1) mod 12 + 1
      in days_before_year y' + days_before_month y' m' + d - 1)"

text \<open>
  The year of a day number: an estimate from the mean length of a year, which is off by
  at most one, corrected against \<open>days_before_year\<close>.
\<close>

definition year_of_days :: "int \<Rightarrow> int" where
  "year_of_days n =
     (let y = 1970 + (400 * n) div 146097
      in if n < days_before_year y then y - 1
         else if days_before_year (y + 1) \<le> n then y + 1
         else y)"

text \<open>The month of day \<open>yd\<close> (from 0) of year \<open>y\<close>: the last month that starts by then.\<close>

definition month_of_yday :: "int \<Rightarrow> int \<Rightarrow> int" where
  "month_of_yday y yd =
     foldl (\<lambda>acc m. if days_before_month y m \<le> yd then m else acc) 1
       [2, 3, 4, 5, 6, 7, 8, 9, 10, 11, 12]"

subsection \<open>\<open>time.Date\<close> and the accessors\<close>

text \<open>
  \<open>time.Date(year, month, day, hour, min, sec, nsec, loc)\<close>, the location given by its
  offset.  Go normalises the fields by carrying into the next unit, which leaves the sum
  below unchanged.
\<close>

definition Date :: "int \<Rightarrow> int \<Rightarrow> int \<Rightarrow> int \<Rightarrow> int \<Rightarrow> int \<Rightarrow> int \<Rightarrow> int \<Rightarrow> gotime" where
  "Date year month day hour minute sec nsec loc =
     \<lparr>unix_ns =
        (days_from_civil year month day * 86400 + hour * 3600 + minute * 60 + sec - loc)
          * 1000000000 + nsec,
      zone = loc\<rparr>"

definition local_secs :: "gotime \<Rightarrow> int" where
  "local_secs t = unix_ns t div 1000000000 + zone t"

definition day_number :: "gotime \<Rightarrow> int" where
  "day_number t = local_secs t div 86400"

definition Year :: "gotime \<Rightarrow> int" where
  "Year t = year_of_days (day_number t)"

definition Month :: "gotime \<Rightarrow> int" where
  "Month t = month_of_yday (Year t) (day_number t - days_before_year (Year t))"

definition Day :: "gotime \<Rightarrow> int" where
  "Day t = day_number t - days_before_year (Year t) - days_before_month (Year t) (Month t) + 1"

definition Hour :: "gotime \<Rightarrow> int" where
  "Hour t = local_secs t mod 86400 div 3600"

definition Minute :: "gotime \<Rightarrow> int" where
  "Minute t = local_secs t mod 3600 div 60"

definition Second :: "gotime \<Rightarrow> int" where
  "Second t = local_secs t mod 60"

definition Nanosecond :: "gotime \<Rightarrow> int" where
  "Nanosecond t = unix_ns t mod 1000000000"

text \<open>\<open>t.Weekday()\<close>, Sunday being 0; 1970-01-01 was a Thursday.\<close>

definition Weekday :: "gotime \<Rightarrow> int" where
  "Weekday t = (day_number t + 4) mod 7"

text \<open>\<open>t.AddDate(years, months, days)\<close>.\<close>

definition AddDate :: "gotime \<Rightarrow> int \<Rightarrow> int \<Rightarrow> int \<Rightarrow> gotime" where
  "AddDate t years months days =
     Date (Year t + years) (Month t + months) (Day t + days)
       (Hour t) (Minute t) (Second t) (Nanosecond t) (zone t)"

text \<open>
  \<open>t.Sub(u)\<close> is a \<open>time.Duration\<close>, a signed 64-bit count of nanoseconds, and
  saturates; \<open>t.Add(d)\<close>; \<open>t.Before(u)\<close>.
\<close>

definition Sub :: "gotime \<Rightarrow> gotime \<Rightarrow> int" where
  "Sub t u =
     (let d = unix_ns t - unix_ns u
      in if d < - (2 ^ 63) then - (2 ^ 63) else if 2 ^ 63 - 1 < d then 2 ^ 63 - 1 else d)"

definition Add :: "gotime \<Rightarrow> int \<Rightarrow> gotime" where
  "Add t d = t\<lparr>unix_ns := unix_ns t + d\<rparr>"

definition Before :: "gotime \<Rightarrow> gotime \<Rightarrow> bool" where
  "Before t u = (unix_ns t < unix_ns u)"

text \<open>A time is day-aligned when it is midnight (00:00:00.000000000) in UTC.\<close>

definition day_aligned :: "gotime \<Rightarrow> bool" where
  "day_aligned t = (zone t = UTC \<and> unix_ns t mod 86400000000000 = 0)"

subsection \<open>\<open>time.Parse\<close> on the layouts of \<open>TimeParseAny\<close>\<close>

text \<open>
  The elements of a layout.  The tokenizer knows the elements that occur in the seven
  layouts of \<open>TimeParseAny\<close>; every other byte of those layouts is a literal.
\<close>

datatype layout_item =
    StdLongYear | StdZeroMonth | StdZeroDay | StdHour | StdZeroMinute | StdZeroSecond
  | Literal char

fun layout_items :: "string \<Rightarrow> layout_item list" where
  "layout_items [] = []"
| "layout_items (c # cs) =
     (if HasPrefix (c # cs) ''2006'' then StdLongYear # layout_items (drop 3 cs)
      else if HasPrefix (c # cs) ''01'' then StdZeroMonth # layout_items (drop 1 cs)
      else if HasPrefix (c # cs) ''02'' then StdZeroDay # layout_items (drop 1 cs)
      else if HasPrefix (c # cs) ''15'' then StdHour # layout_items (drop 1 cs)
      else if HasPrefix (c # cs) ''04'' then StdZeroMinute # layout_items (drop 1 cs)
      else if HasPrefix (c # cs) ''05'' then StdZeroSecond # layout_items (drop 1 cs)
      else Literal c # layout_items cs)"

definition digit_val :: "char \<Rightarrow> int option" where
  "digit_val c = map_of (zip ''0123456789'' [0, 1, 2, 3, 4, 5, 6, 7, 8, 9]) c"

definition isDigit :: "string \<Rightarrow> nat \<Rightarrow> bool" where
  "isDigit s i = (i < length s \<and> digit_val (s ! i) \<noteq> None)"

text \<open>The value of a string of digits (\<open>atoi\<close> on bytes that are known to be digits).\<close>

definition atoi_digits :: "string \<Rightarrow> int" where
  "atoi_digits s = foldl (\<lambda>acc c. 10 * acc + (case digit_val c of Some v \<Rightarrow> v | None \<Rightarrow> 0)) 0 s"

text \<open>\<open>getnum(s, fixed)\<close>: one or two digits, two when \<open>fixed\<close>.\<close>

definition getnum :: "string \<Rightarrow> bool \<Rightarrow> (int \<times> string) option" where
  "getnum s fixed =
     (if \<not> isDigit s 0 then None
      else if \<not> isDigit s 1 then (if fixed then None else Some (atoi_digits (take 1 s), drop 1 s))
      else Some (atoi_digits (take 2 s), drop 2 s))"

text \<open>The fields \<open>Parse\<close> collects, with their defaults.\<close>

record fields =
  f_year :: int
  f_month :: int
  f_day :: int
  f_hour :: int
  f_min :: int
  f_sec :: int
  f_nsec :: int

definition fields0 :: fields where
  "fields0 = \<lparr>f_year = 0, f_month = 1, f_day = 1, f_hour = 0, f_min = 0, f_sec = 0, f_nsec = 0\<rparr>"

definition commaOrPeriod :: "char \<Rightarrow> bool" where
  "commaOrPeriod c = (c = CHR ''.'' \<or> c = CHR '','')"

text \<open>
  A fractional second in the input right after the seconds, which \<open>Parse\<close> accepts
  although the layout has none: \<open>value\<close> starts with the separator; the result is the
  nanoseconds (from at most nine digits) and the rest of the input.
\<close>

definition fraction :: "string \<Rightarrow> int \<times> string" where
  "fraction v =
     (let ds = takeWhile (\<lambda>c. digit_val c \<noteq> None) (drop 1 v);
          used = take 9 ds
      in (atoi_digits used * 10 ^ (9 - length used), drop (1 + length ds) v))"

fun parse_items :: "layout_item list \<Rightarrow> string \<Rightarrow> fields \<Rightarrow> fields option" where
  "parse_items [] v f = (if v = [] then Some f else None)"
| "parse_items (Literal c # its) v f =
     (if c = CHR '' '' then
        (if v \<noteq> [] \<and> hd v \<noteq> CHR '' '' then None
         else parse_items its (dropWhile (\<lambda>x. x = CHR '' '') v) f)
      else if v = [] \<or> hd v \<noteq> c then None
      else parse_items its (tl v) f)"
| "parse_items (StdLongYear # its) v f =
     (if length v < 4 \<or> \<not> (\<forall>c \<in> set (take 4 v). digit_val c \<noteq> None) then None
      else parse_items its (drop 4 v) (f\<lparr>f_year := atoi_digits (take 4 v)\<rparr>))"
| "parse_items (StdZeroMonth # its) v f =
     (case getnum v True of
        None \<Rightarrow> None
      | Some (n, v') \<Rightarrow> if n \<le> 0 \<or> 12 < n then None else parse_items its v' (f\<lparr>f_month := n\<rparr>))"
| "parse_items (StdZeroDay # its) v f =
     (case getnum v True of
        None \<Rightarrow> None
      | Some (n, v') \<Rightarrow> parse_items its v' (f\<lparr>f_day := n\<rparr>))"
| "parse_items (StdHour # its) v f =
     (case getnum v False of
        None \<Rightarrow> None
      | Some (n, v') \<Rightarrow> if n < 0 \<or> 24 \<le> n then None else parse_items its v' (f\<lparr>f_hour := n\<rparr>))"
| "parse_items (StdZeroMinute # its) v f =
     (case getnum v True of
        None \<Rightarrow> None
      | Some (n, v') \<Rightarrow> if n < 0 \<or> 60 \<le> n then None else parse_items its v' (f\<lparr>f_min := n\<rparr>))"
| "parse_items (StdZeroSecond # its) v f =
     (case getnum v True of
        None \<Rightarrow> None
      | Some (n, v') \<Rightarrow>
          if n < 0 \<or> 60 \<le> n then None
          else if 2 \<le> length v' \<and> commaOrPeriod (hd v') \<and> isDigit v' 1 then
            parse_items its (snd (fraction v')) (f\<lparr>f_sec := n, f_nsec := fst (fraction v')\<rparr>)
          else parse_items its v' (f\<lparr>f_sec := n\<rparr>))"

text \<open>\<open>time.Parse(layout, value)\<close>: \<open>None\<close> is an error.  The day is validated last.\<close>

definition Parse :: "string \<Rightarrow> string \<Rightarrow> gotime option" where
  "Parse layout v =
     (case parse_items (layout_items layout) v fields0 of
        None \<Rightarrow> None
      | Some f \<Rightarrow>
          if f_day f < 1 \<or> daysIn (f_month f) (f_year f) < f_day f then None
          else Some (Date (f_year f) (f_month f) (f_day f) (f_hour f) (f_min f) (f_sec f)
                       (f_nsec f) UTC))"

section \<open>The database, the files and the clock\<close>

text \<open>
  A bound parameter of a statement (\<open>interface{}\<close> in the code): a string, a time or an
  integer.
\<close>

datatype arg = AStr string | ATime gotime | AInt int

text \<open>What the program sends to the database: \<open>db.Query\<close> and \<open>db.Exec\<close> calls.\<close>

datatype event = Query string "arg list" | Exec string "arg list"

text \<open>
  \<open>*sql.Rows\<close>: the result of \<open>ColumnTypes()\<close>, then for each \<open>rows.Next()\<close> that
  returns true what \<open>rows.Scan\<close> yields (an error, or the values of the row as raw bytes),
  and what \<open>rows.Err()\<close> reports once \<open>Next\<close> has returned false.
\<close>

record rowset =
  rs_columns :: "error + column list"
  rs_rows :: "(error + string list) list"
  rs_err :: "error option"

text \<open>
  Everything outside the program.  The database is deterministic: its answer to a call is
  a function of the calls made before (oldest first) and of the call itself.  An
  \<open>Exec\<close> answers with an error or a \<open>sql.Result\<close>, whose \<open>RowsAffected()\<close> is an error
  or a count.  \<open>clock\<close> gives the value of the \<open>n\<close>-th call of \<open>time.Now()\<close>, and
  \<open>week_first_day\<close> is the first day of the week of the library function \<open>WeekStart\<close>.
\<close>

record sys =
  environ :: "string list"
  sql_open :: "string \<Rightarrow> error option"
  db_query :: "event list \<Rightarrow> string \<Rightarrow> arg list \<Rightarrow> error + rowset"
  db_exec :: "event list \<Rightarrow> string \<Rightarrow> arg list \<Rightarrow> error + (error + int)"
  read_file :: "string \<Rightarrow> error + string"
  clock :: "nat \<Rightarrow> gotime"
  week_first_day :: int

text \<open>
  The mutable state of one run: the calls sent to the database so far, the number of
  \<open>time.Now()\<close> calls so far, and the package variable \<open>gFinalState\<close>.
\<close>

record world =
  sent :: "event list"
  ticks :: nat
  gFinalState :: int

definition Query_db :: "sys \<Rightarrow> string \<Rightarrow> arg list \<Rightarrow> world \<Rightarrow> (error + rowset) \<times> world" where
  "Query_db sy q args w = (db_query sy (sent w) q args, w\<lparr>sent := sent w @ [Query q args]\<rparr>)"

definition Exec_db :: "sys \<Rightarrow> string \<Rightarrow> arg list \<Rightarrow> world \<Rightarrow> (error + (error + int)) \<times> world" where
  "Exec_db sy q args w = (db_exec sy (sent w) q args, w\<lparr>sent := sent w @ [Exec q args]\<rparr>)"

definition Now :: "sys \<Rightarrow> world \<Rightarrow> gotime \<times> world" where
  "Now sy w = (clock sy (ticks w), w\<lparr>ticks := Suc (ticks w)\<rparr>)"

text \<open>
  The database is PostgreSQL: the program opens it with the driver \<open>postgres\<close>.  A
  PostgreSQL server delivers at most 1664 columns in a result set (and keeps at most 1600
  columns in a table).
\<close>

definition pg_max_result_columns :: nat where
  "pg_max_result_columns = 1664"

section \<open>The library file \<open>time.go\<close>\<close>

definition formats :: "string list" where
  "formats =
     [''2006-01-02T15:04:05Z'',
      ''2006-01-02 15:04:05'',
      ''2006-01-02 15:04'',
      ''2006-01-02 15'',
      ''2006-01-02'',
      ''2006-01'',
      ''2006'']"

text \<open>The loop over the formats: the first one that parses wins.\<close>

fun first_parse :: "string list \<Rightarrow> string \<Rightarrow> gotime option" where
  "first_parse [] dtStr = None"
| "first_parse (format # rest) dtStr =
     (case Parse format dtStr of Some t \<Rightarrow> Some t | None \<Rightarrow> first_parse rest dtStr)"

text \<open>\<open>TimeParseAny\<close> returns a time and an error; on failure the time is \<open>time.Now()\<close>.\<close>

definition TimeParseAny :: "sys \<Rightarrow> string \<Rightarrow> world \<Rightarrow> (gotime \<times> error option) \<times> world" where
  "TimeParseAny sy dtStr w =
     (case first_parse formats dtStr of
        Some t \<Rightarrow> ((t, None), w)
      | None \<Rightarrow> (case Now sy w of (t, w') \<Rightarrow> ((t, Some (CannotParseDate dtStr)), w')))"

definition DayStart :: "gotime \<Rightarrow> gotime" where
  "DayStart dt = Date (Year dt) (Month dt) (Day dt) 0 0 0 0 UTC"

definition NextDayStart :: "gotime \<Rightarrow> gotime" where
  "NextDayStart dt = AddDate (DayStart dt) 0 0 1"

subsection \<open>Library functions that the program calls and \<open>time.go\<close> does not hold\<close>

text \<open>
  Modelled from the spec: \<open>YearStart\<close> is missing from the sources.  The spec has the
  year-to-date window run from the first of January to today, and the yearly windows
  aligned to the calendar year.
\<close>

definition YearStart :: "gotime \<Rightarrow> gotime" where
  "YearStart dt = Date (Year dt) 1 1 0 0 0 0 UTC"

text \<open>
  Modelled from the spec: \<open>MonthStart\<close> is missing from the sources.  The spec has the
  30-day window aligned to the calendar month.
\<close>

definition MonthStart :: "gotime \<Rightarrow> gotime" where
  "MonthStart dt = Date (Year dt) (Month dt) 1 0 0 0 0 UTC"

text \<open>
  Modelled from the spec: \<open>QuarterStart\<close> is missing from the sources.  The spec has the
  quarter window cover three calendar months, aligned to the calendar.
\<close>

definition QuarterStart :: "gotime \<Rightarrow> gotime" where
  "QuarterStart dt = Date (Year dt) (3 * ((Month dt - 1) div 3) + 1) 1 0 0 0 0 UTC"

text \<open>
  Modelled from the spec: \<open>WeekStart\<close> is missing from the sources.  The spec has the
  7-day window aligned to the calendar week and does not name the first day of the week;
  it is the parameter \<open>first\<close> (Sunday is 0).
\<close>

definition WeekStart :: "int \<Rightarrow> gotime \<Rightarrow> gotime" where
  "WeekStart first dt = AddDate (DayStart dt) 0 0 (- ((Weekday dt - first) mod 7))"

text \<open>
  Modelled from the spec: \<open>ToYMDQuoted\<close> is missing from the sources.  The spec has the
  resolved date bounds substituted into the query template as literals; the model
  writes the date as \<open>ToYMDHMS\<close> writes its date part, between single quotes.
\<close>

definition zero_pad :: "nat \<Rightarrow> int \<Rightarrow> string" where
  "zero_pad width i =
     (if i < 0 then CHR ''-'' # replicate (width - 1 - length (digits (nat (- i)))) CHR ''0''
                      @ digits (nat (- i))
      else replicate (width - length (digits (nat i))) CHR ''0'' @ digits (nat i))"

definition ToYMDQuoted :: "gotime \<Rightarrow> string" where
  "ToYMDQuoted dt =
     [CHR 0x27] @ zero_pad 4 (Year dt) @ ''-'' @ zero_pad 2 (Month dt) @ ''-''
       @ zero_pad 2 (Day dt) @ [CHR 0x27]"

section \<open>The freshness check: \<open>isCalculated\<close>\<close>

text \<open>
  The \<open>debug\<close> flag and the log output of the program are left out of the model: they
  change neither a result nor a call to the database.

  \<open>rows.Scan\<close> into \<open>n\<close> destinations fails when the row has another number of values.
\<close>

definition Scan :: "nat \<Rightarrow> error + string list \<Rightarrow> error + string list" where
  "Scan n r =
     (case r of
        Inl e \<Rightarrow> Inl e
      | Inr vs \<Rightarrow>
          if length vs = n then Inr vs
          else Inl (DriverError ''sql: wrong number of destination arguments in Scan''))"

text \<open>The loop \<open>for rows.Next()\<close> of \<open>isCalculated\<close>, with the flag \<open>fetched\<close>.\<close>

fun fetch_loop :: "(error + string list) list \<Rightarrow> bool \<Rightarrow> error + bool" where
  "fetch_loop [] fetched = Inr fetched"
| "fetch_loop (r # rs) fetched =
     (case Scan 1 r of Inl e \<Rightarrow> Inl e | Inr vs \<Rightarrow> fetch_loop rs True)"

definition isCalculated_sql :: "string \<Rightarrow> string" where
  \<open>isCalculated_sql table =
     ''select last_calculated_at from "'' @ table @
     ''" where project_slug = $1 and time_range = $2 and date_from = $3 and date_to = $4''\<close>

definition isCalculated ::
  "sys \<Rightarrow> string \<Rightarrow> string \<Rightarrow> string \<Rightarrow> gotime \<Rightarrow> gotime \<Rightarrow> world
     \<Rightarrow> (bool \<times> error option) \<times> world" where
  "isCalculated sy table projectSlug timeRange dtf0 dtt0 w =
     (let dtf = DayStart dtf0;
          dtt = DayStart dtt0;
          sqlQuery = isCalculated_sql table;
          args = [AStr projectSlug, AStr timeRange, ATime dtf, ATime dtt]
      in case Query_db sy sqlQuery args w of
           (Inl err, w') \<Rightarrow>
             (case err of
                PqError errName \<Rightarrow>
                  if errName = ''undefined_table'' then ((False, None), w')
                  else ((False, Some err), w')
              | _ \<Rightarrow> ((False, Some err), w'))
         | (Inr rows, w') \<Rightarrow>
             (case fetch_loop (rs_rows rows) False of
                Inl err \<Rightarrow> ((False, Some err), w')
              | Inr fetched \<Rightarrow>
                  (case rs_err rows of
                     Some err \<Rightarrow> ((False, Some err), w')
                   | None \<Rightarrow> ((fetched, None), w'))))"

section \<open>Maintenance: \<open>supportCleanup\<close>\<close>

definition supportCleanup ::
  "sys \<Rightarrow> string \<Rightarrow> string \<Rightarrow> string \<Rightarrow> gotime \<Rightarrow> gotime \<Rightarrow> env \<Rightarrow> world \<Rightarrow> world" where
  \<open>supportCleanup sy table timeRange projectSlug dtf0 dtt0 env w =
     (case env ''CLEANUP'' of
        None \<Rightarrow> w
      | Some cl \<Rightarrow>
          if cl = [] then w
          else
            let dtf = DayStart dtf0;
                dtt = DayStart dtt0;
                delQuery = ''delete from "'' @ table @
                  ''" where time_range = $1 and project_slug = $2 and date_from < $3 '' @
                  ''and date_to < $4 and date(last_calculated_at) < date(now())'';
                args = [AStr timeRange, AStr projectSlug, ATime dtf, ATime dtt]
            in snd (Exec_db sy delQuery args w))\<close>

section \<open>Maintenance: \<open>supportDelete\<close>\<close>

text \<open>
  The \<open>debug\<close> flag and the log output of the program are left out of the model: they
  change neither a result nor a call to the database.  \<open>delMap\<close> is the set of the
  entries of \<open>delAry\<close>; a condition is added by \<open>add_cond\<close>, which is the body of each of
  the four \<open>if\<close> blocks.
\<close>

definition add_cond :: "bool \<Rightarrow> string \<Rightarrow> arg \<Rightarrow> int \<times> string list \<times> arg list \<Rightarrow> int \<times> string list \<times> arg list" where
  "add_cond present col a st =
     (case st of (i, conds, args) \<Rightarrow>
        if present then (i + 1, conds @ [col @ '' = $'' @ itoa (i + 1)], args @ [a])
        else (i, conds, args))"

definition supportDelete ::
  "sys \<Rightarrow> string \<Rightarrow> string \<Rightarrow> string \<Rightarrow> gotime \<Rightarrow> gotime \<Rightarrow> env \<Rightarrow> world \<Rightarrow> bool \<times> world" where
  \<open>supportDelete sy table timeRange projectSlug dtf dtt env w =
     (case env ''DELETE'' of
        None \<Rightarrow> (False, w)
      | Some del \<Rightarrow>
          if del = [] then (False, w)
          else
            let delAry = Split del CHR '','';
                delMap = set delAry
            in if card delMap \<le> 0 then (False, w)
               else
                 let st0 = (0, [], []);
                     st1 = add_cond (''tr'' \<in> delMap) ''time_range'' (AStr timeRange) st0;
                     st2 = add_cond (''ps'' \<in> delMap) ''project_slug'' (AStr projectSlug) st1;
                     st3 = add_cond (''df'' \<in> delMap) ''date_from'' (ATime dtf) st2;
                     st4 = add_cond (''dt'' \<in> delMap) ''date_to'' (ATime dtt) st3;
                     conds = fst (snd st4);
                     args = snd (snd st4);
                     delQuery = ''delete from "'' @ table @ ''"'' @
                       (if length conds > 0 then '' where '' @ Join conds '' and '' else [])
                 in case Exec_db sy delQuery args w of
                      (Inl err, w') \<Rightarrow> (False, w')
                    | (Inr res, w') \<Rightarrow>
                        (case res of Inr rows \<Rightarrow> (rows > 0, w') | Inl err \<Rightarrow> (False, w')))\<close>

section \<open>The computation: \<open>calculate\<close>\<close>

definition gMaxPlaceholders :: int where
  "gMaxPlaceholders = 0x8000"

definition nl :: string where
  "nl = [CHR 0x0A]"

definition createTable_head :: "string \<Rightarrow> string" where
  \<open>createTable_head table =
     ''create table if not exists "'' @ table @ ''"('' @ nl @
     ''  time_range varchar(6) not null,'' @ nl @
     ''  project_slug text not null,'' @ nl @
     ''  last_calculated_at timestamp not null,'' @ nl @
     ''  date_from date not null,'' @ nl @
     ''  date_to date not null,'' @ nl @
     ''  row_number int not null,'' @ nl\<close>

definition primary_key_tail :: string where
  "primary_key_tail =
     '','' @ nl @
     ''  primary key(time_range, project_slug, date_from, date_to, row_number)'' @ nl @
     '');'' @ nl"

text \<open>
  The loop over the columns: \<open>i\<close> is the index, \<open>l\<close> the last index, and the state is
  \<open>colNames\<close>, \<open>namesMap\<close> and the text of \<open>createTable\<close> so far.
\<close>

fun columns_loop ::
  "env \<Rightarrow> int \<Rightarrow> int \<Rightarrow> column list \<Rightarrow> string list \<Rightarrow> string set \<Rightarrow> string
     \<Rightarrow> error + (string list \<times> string)" where
  "columns_loop env l i [] colNames namesMap createTable = Inr (colNames, createTable)"
| "columns_loop env l i (col # cols) colNames namesMap createTable =
     (case dbTypeName col env of
        Inl err \<Rightarrow> Inl err
      | Inr tp \<Rightarrow>
          let colName = col_name col
          in if colName \<in> namesMap then Inl (NonUniqueColumn colName)
             else
               let c1 = createTable @ ''  '' @ colName @ '' '' @ tp;
                   c2 = (if col_nullable col = Some False then c1 @ '' not null'' else c1);
                   c3 = (if i < l then c2 @ '','' @ nl else c2 @ primary_key_tail)
               in columns_loop env l (i + 1) cols (colNames @ [colName])
                    (insert colName namesMap) c3)"

definition index_statements :: "string \<Rightarrow> bool \<Rightarrow> string list \<Rightarrow> string" where
  \<open>index_statements table ppt indicesAry =
     ''create index if not exists "'' @ table @ ''_time_range_idx" on "'' @ table @
       ''"(time_range);'' @ nl @
     (if \<not> ppt then
        ''create index if not exists "'' @ table @ ''_project_slug_idx" on "'' @ table @
          ''"(project_slug);'' @ nl
      else []) @
     concat (map (\<lambda>index.
        ''create index if not exists "'' @ table @ ''_'' @ index @ ''_idx" on "'' @ table @
          ''"('' @ index @ '');'' @ nl) indicesAry)\<close>

text \<open>
  The loops \<open>for j, x := range xs\<close> that write \<open>x\<close> and then \<open>", "\<close> while \<open>j < l\<close>.
\<close>

fun comma_list :: "int \<Rightarrow> int \<Rightarrow> string list \<Rightarrow> string" where
  "comma_list l j [] = []"
| "comma_list l j (x # xs) = x @ (if j < l then '', '' else []) @ comma_list l (j + 1) xs"

text \<open>
  The text that closes a batch; the program has it twice, at the flush inside the loop
  and at the final flush.
\<close>

definition on_conflict :: "int \<Rightarrow> string list \<Rightarrow> string" where
  "on_conflict l colNames =
     '' on conflict(time_range, project_slug, date_from, date_to, row_number) do update set ''
     @ (if l > 0 then ''('' else [])
     @ comma_list l 0 colNames
     @ (if l > 0 then '') = ('' else '' = '')
     @ comma_list l 0 (map (\<lambda>colName. ''excluded.'' @ colName) colNames)
     @ (if l > 0 then '')'' else [])"

text \<open>The six placeholders of the identity columns, from \<open>p + 1\<close> to \<open>p + 6\<close>.\<close>

definition six_placeholders :: "int \<Rightarrow> string" where
  "six_placeholders p =
     concat (map (\<lambda>k. ''$'' @ itoa (p + k) @ '', '') [1, 2, 3, 4, 5, 6])"

text \<open>What is fixed during the loop over the rows.\<close>

record batch_ctx =
  c_table :: string
  c_timeRange :: string
  c_projectSlug :: string
  c_calcDt :: gotime
  c_dtFrom :: string
  c_dtTo :: string
  c_colNames :: "string list"
  c_l :: int
  c_nColumns :: nat

text \<open>The variables of the loop over the rows.\<close>

record batch_state =
  b_i :: int
  b_p :: int
  b_ep :: int
  b_changes :: bool
  b_query :: string
  b_args :: "arg list"
  b_batches :: int

definition queryRoot :: "string \<Rightarrow> string" where
  \<open>queryRoot table =
     ''insert into "'' @ table @
     ''"(time_range, project_slug, last_calculated_at, date_from, date_to, row_number, ''\<close>

text \<open>
  Sending a batch: the statement is executed with the collected parameters; an error of
  \<open>Exec\<close> or of \<open>RowsAffected\<close> is returned, otherwise the result is whether
  \<open>changes\<close> holds afterwards.
\<close>

definition flush :: "sys \<Rightarrow> batch_ctx \<Rightarrow> batch_state \<Rightarrow> world \<Rightarrow> (error + bool) \<times> world" where
  "flush sy c st w =
     (case Exec_db sy (b_query st @ on_conflict (c_l c) (c_colNames c)) (b_args st) w of
        (Inl err, w') \<Rightarrow> (Inl err, w')
      | (Inr rslt, w') \<Rightarrow>
          (case rslt of
             Inl err \<Rightarrow> (Inl err, w')
           | Inr nRows \<Rightarrow> (Inr (b_changes st \<or> nRows > 0), w')))"

text \<open>The body of the loop up to the threshold test: one row is added to the batch.\<close>

definition add_row :: "batch_ctx \<Rightarrow> string list \<Rightarrow> batch_state \<Rightarrow> batch_state" where
  "add_row c vals st =
     (let i = b_i st + 1;
          p = b_p st;
          args = b_args st
            @ [AStr (c_timeRange c), AStr (c_projectSlug c), ATime (c_calcDt c),
               AStr (c_dtFrom c), AStr (c_dtTo c), AInt i]
            @ map AStr vals;
          ep = (if b_ep st = 0 then int (c_nColumns c) else b_ep st);
          query0 =
            (if b_query st = [] then
               queryRoot (c_table c) @ comma_list (c_l c) 0 (c_colNames c)
                 @ '') values ('' @ six_placeholders p
             else b_query st @ '', ('' @ six_placeholders p);
          query1 = query0
            @ comma_list (c_l c) 0
                (map (\<lambda>j. ''$'' @ itoa (p + int j + 7)) [0 ..< length (c_colNames c)])
            @ '')''
      in st\<lparr>b_i := i, b_p := p + (6 + ep), b_ep := ep, b_query := query1, b_args := args\<rparr>)"

fun rows_loop ::
  "sys \<Rightarrow> batch_ctx \<Rightarrow> (error + string list) list \<Rightarrow> batch_state \<Rightarrow> world
     \<Rightarrow> (error + batch_state) \<times> world" where
  "rows_loop sy c [] st w = (Inr st, w)"
| "rows_loop sy c (r # rs) st w =
     (case Scan (c_nColumns c) r of
        Inl err \<Rightarrow> (Inl err, w)
      | Inr vals \<Rightarrow>
          let st1 = add_row c vals st
          in if b_p st1 \<ge> gMaxPlaceholders - (6 + b_ep st1) then
               (case flush sy c st1 w of
                  (Inl err, w') \<Rightarrow> (Inl err, w')
                | (Inr changes, w') \<Rightarrow>
                    rows_loop sy c rs
                      (st1\<lparr>b_changes := changes, b_query := [], b_args := [], b_p := 0,
                           b_batches := b_batches st1 + 1\<rparr>) w')
             else rows_loop sy c rs st1 w)"

text \<open>
  \<open>calculate\<close> is modelled in three parts, in the order of its body: the text of the
  create-table statement (\<open>createTable_sql\<close>, which fails on an unknown type or a
  repeated column name), the loop over the rows with the final flush, the check of
  \<open>rows.Err()\<close> and the update of \<open>gFinalState\<close> (\<open>upsert\<close>), and the function itself.
\<close>

definition indicesAry :: "env \<Rightarrow> string list" where
  "indicesAry env =
     (case env ''INDEXED_COLUMNS'' of
        None \<Rightarrow> []
      | Some indices \<Rightarrow> if indices \<noteq> [] then Split indices CHR '','' else [])"

definition createTable_sql ::
  "env \<Rightarrow> string \<Rightarrow> bool \<Rightarrow> column list \<Rightarrow> error + (string list \<times> string)" where
  "createTable_sql env table ppt columns =
     (let l = int (length columns) - 1
      in case columns_loop env l 0 columns [] {} (createTable_head table) of
           Inl err \<Rightarrow> Inl err
         | Inr (colNames, createTable) \<Rightarrow>
             Inr (colNames, createTable @ index_statements table ppt (indicesAry env)))"

definition upsert :: "sys \<Rightarrow> batch_ctx \<Rightarrow> rowset \<Rightarrow> world \<Rightarrow> error option \<times> world" where
  "upsert sy c rows w =
     (let st0 = \<lparr>b_i = 0, b_p = 0, b_ep = 0, b_changes = False,
                 b_query = [], b_args = [], b_batches = 0\<rparr>
      in case rows_loop sy c (rs_rows rows) st0 w of
           (Inl err, w1) \<Rightarrow> (Some err, w1)
         | (Inr st, w1) \<Rightarrow>
             (case (if length (b_args st) > 0 then flush sy c st w1
                    else (Inr (b_changes st), w1)) of
                (Inl err, w2) \<Rightarrow> (Some err, w2)
              | (Inr changes, w2) \<Rightarrow>
                  (case rs_err rows of
                     Some err \<Rightarrow> (Some err, w2)
                   | None \<Rightarrow> (None, (if changes then w2\<lparr>gFinalState := 1\<rparr> else w2)))))"

definition calculate ::
  "sys \<Rightarrow> string \<Rightarrow> string \<Rightarrow> string \<Rightarrow> string \<Rightarrow> string \<Rightarrow> string \<Rightarrow> bool \<Rightarrow> env \<Rightarrow> world
     \<Rightarrow> error option \<times> world" where
  "calculate sy sqlQuery table projectSlug timeRange dtFrom dtTo ppt env w =
     (case Query_db sy sqlQuery [] w of
        (Inl err, w1) \<Rightarrow> (Some err, w1)
      | (Inr rows, w1) \<Rightarrow>
          (case rs_columns rows of
             Inl err \<Rightarrow> (Some err, w1)
           | Inr columns \<Rightarrow>
               (case createTable_sql env table ppt columns of
                  Inl err \<Rightarrow> (Some err, w1)
                | Inr (colNames, createTable) \<Rightarrow>
                    (case Exec_db sy createTable [] w1 of
                       (Inl err, w2) \<Rightarrow> (Some err, w2)
                     | (Inr res, w2) \<Rightarrow>
                         (case Now sy w2 of
                            (calcDt, w3) \<Rightarrow>
                              upsert sy
                                \<lparr>c_table = table, c_timeRange = timeRange,
                                 c_projectSlug = projectSlug, c_calcDt = calcDt,
                                 c_dtFrom = dtFrom, c_dtTo = dtTo, c_colNames = colNames,
                                 c_l = int (length columns) - 1,
                                 c_nColumns = length columns\<rparr>
                                rows w3)))))"

section \<open>The time window: \<open>currentTimeRange\<close> and \<open>needsCalculation\<close>\<close>

text \<open>
  The block that the \<open>p\<close> codes run: both bounds go back by the same
  \<open>AddDate(years, months, days)\<close>.
\<close>

definition shift_back :: "bool \<Rightarrow> int \<Rightarrow> int \<Rightarrow> int \<Rightarrow> gotime \<times> gotime \<Rightarrow> gotime \<times> gotime" where
  "shift_back previous years months days win =
     (case win of (dtf, dtt) \<Rightarrow>
        if previous then (AddDate dtf years months days, AddDate dtt years months days)
        else (dtf, dtt))"

definition currentTimeRange :: "sys \<Rightarrow> string \<Rightarrow> env \<Rightarrow> world \<Rightarrow> (gotime \<times> gotime) \<times> world" where
  "currentTimeRange sy timeRange env w =
     (case Now sy w of
        (now, w1) \<Rightarrow>
          if timeRange = ''7d'' \<or> timeRange = ''7dp'' then
            (let dtt = (if env ''CALC_WEEK_DAILY'' \<noteq> None then DayStart now
                        else WeekStart (week_first_day sy) now);
                 dtf = AddDate dtt 0 0 (- 7)
             in (shift_back (timeRange = ''7dp'') 0 0 (- 7) (dtf, dtt), w1))
          else if timeRange = ''30d'' \<or> timeRange = ''30dp'' then
            (if env ''CALC_MONTH_DAILY'' \<noteq> None then
               (let dtt = DayStart now;
                    dtf = AddDate dtt 0 0 (- 30)
                in (shift_back (timeRange = ''30dp'') 0 0 (- 30) (dtf, dtt), w1))
             else
               (let dtt = MonthStart now;
                    dtf = AddDate dtt 0 (- 1) 0
                in (shift_back (timeRange = ''30dp'') 0 (- 1) 0 (dtf, dtt), w1)))
          else if timeRange = ''q'' \<or> timeRange = ''qp'' then
            (let dtt = (if env ''CALC_QUARTER_DAILY'' \<noteq> None then DayStart now
                        else QuarterStart now);
                 dtf = AddDate dtt 0 (- 3) 0
             in (shift_back (timeRange = ''qp'') 0 (- 3) 0 (dtf, dtt), w1))
          else if timeRange = ''ty'' \<or> timeRange = ''typ'' then
            (let dtt = DayStart now;
                 dtf = YearStart now
             in if timeRange = ''typ'' then
                  (let diff = Sub dtt dtf in ((Add dtf (- diff), Add dtt (- diff)), w1))
                else ((dtf, dtt), w1))
          else if timeRange = ''y'' \<or> timeRange = ''yp'' then
            (let dtt = (if env ''CALC_YEAR_DAILY'' \<noteq> None then DayStart now
                        else YearStart now);
                 dtf = AddDate dtt (- 1) 0 0
             in (shift_back (timeRange = ''yp'') (- 1) 0 0 (dtf, dtt), w1))
          else if timeRange = ''2y'' \<or> timeRange = ''2yp'' then
            (let dtt = (if env ''CALC_YEAR2_DAILY'' \<noteq> None then DayStart now
                        else if Year now mod 2 = 1 then AddDate (YearStart now) (- 1) 0 0
                        else YearStart now);
                 dtf = AddDate dtt (- 2) 0 0
             in (shift_back (timeRange = ''2yp'') (- 2) 0 0 (dtf, dtt), w1))
          else if timeRange = ''a'' then
            (case TimeParseAny sy ''2100'' w1 of
               ((dtt, e1), w2) \<Rightarrow>
                 (case TimeParseAny sy ''1970'' w2 of
                    ((dtf, e2), w3) \<Rightarrow>
                      if timeRange = ''typ'' then
                        (let diff = Sub dtt dtf in ((Add dtf (- diff), Add dtt (- diff)), w3))
                      else ((dtf, dtt), w3)))
          else ((now, now), w1))"

text \<open>The two bounds that \<open>currentTimeRange\<close> resolves, \<open>(date_from, date_to)\<close>.\<close>

definition window :: "sys \<Rightarrow> string \<Rightarrow> env \<Rightarrow> world \<Rightarrow> gotime \<times> gotime" where
  "window sy timeRange env w = fst (currentTimeRange sy timeRange env w)"

text \<open>The codes that \<open>needsCalculation\<close> hands to \<open>currentTimeRange\<close>.\<close>

definition range_codes :: "string list" where
  "range_codes = [''7d'', ''7dp'', ''30d'', ''30dp'', ''q'', ''qp'', ''ty'', ''typ'',
                  ''y'', ''yp'', ''2y'', ''2yp'', ''a'']"

text \<open>The zero \<open>time.Time\<close>: the first of January of the year 1, UTC.\<close>

definition zero_time :: gotime where
  "zero_time = Date 1 1 1 0 0 0 0 UTC"

definition needsCalculation ::
  "sys \<Rightarrow> string \<Rightarrow> string \<Rightarrow> string \<Rightarrow> env \<Rightarrow> world
     \<Rightarrow> (bool \<times> gotime \<times> gotime \<times> error option) \<times> world" where
  "needsCalculation sy table projectSlug timeRange env w =
     (let tm = zero_time
      in if timeRange \<in> set range_codes then
           (case currentTimeRange sy timeRange env w of
              ((dtf, dtt), w1) \<Rightarrow>
                (case isCalculated sy table projectSlug timeRange dtf dtt w1 of
                   ((isCalc, Some err), w2) \<Rightarrow> ((True, dtf, dtt, Some err), w2)
                 | ((isCalc, None), w2) \<Rightarrow> ((\<not> isCalc, dtf, dtt, None), w2)))
         else if timeRange = ''c'' then
           (case env ''DATE_FROM'' of
              None \<Rightarrow> ((True, tm, tm, Some MissingDateFrom), w)
            | Some dtFrom \<Rightarrow>
                (case env ''DATE_TO'' of
                   None \<Rightarrow> ((True, tm, tm, Some MissingDateTo), w)
                 | Some dtTo \<Rightarrow>
                     (case TimeParseAny sy dtFrom w of
                        ((dtf0, Some err), w1) \<Rightarrow> ((True, tm, tm, Some err), w1)
                      | ((dtf0, None), w1) \<Rightarrow>
                          (case TimeParseAny sy dtTo w1 of
                             ((dtt0, Some err), w2) \<Rightarrow> ((True, dtf0, tm, Some err), w2)
                           | ((dtt0, None), w2) \<Rightarrow>
                               (let dtf = DayStart dtf0;
                                    dtt = DayStart dtt0
                                in case isCalculated sy table projectSlug timeRange dtf dtt w2 of
                                     ((isCalc, Some err), w3) \<Rightarrow>
                                       ((True, dtf, dtt, Some err), w3)
                                   | ((isCalc, None), w3) \<Rightarrow>
                                       ((\<not> isCalc, dtf, dtt, None), w3))))))
         else ((True, tm, tm, Some (UnknownTimeRange timeRange)), w))"

section \<open>The invocation: \<open>calcMetric\<close> and \<open>main\<close>\<close>

definition gPrefix :: string where
  "gPrefix = ''V3_''"

definition gRequired :: "string list" where
  "gRequired = [''CONN'', ''METRIC'', ''TABLE'', ''PROJECT_SLUG'', ''TIME_RANGE'']"

definition toDBIdentifier :: "string \<Rightarrow> string" where
  "toDBIdentifier a = Replace (ToLower a) ''-'' ''_''"

text \<open>The loop over \<open>os.Environ()\<close> that fills the map \<open>env\<close>.\<close>

fun read_env :: "string list \<Rightarrow> env \<Rightarrow> env" where
  "read_env [] env = env"
| "read_env (pair # rest) env =
     (if HasPrefix pair gPrefix then
        (let ary = Split pair CHR ''=''
         in if length ary < 2 then read_env rest env
            else read_env rest (env(drop (length gPrefix) (hd ary) \<mapsto> Join (tl ary) ''='')))
      else read_env rest env)"

text \<open>The loop over \<open>gRequired\<close>: the first key that is not set.\<close>

definition missing_key :: "env \<Rightarrow> string option" where
  "missing_key env = find (\<lambda>key. env key = None) gRequired"

text \<open>
  The loop \<open>for k, v := range env\<close> that substitutes the \<open>PARAM_\<close> values.  Go leaves the
  order of a loop over a map open; the model takes the keys in the order of the
  environment.
\<close>

fun substitute_params :: "string list \<Rightarrow> env \<Rightarrow> string \<Rightarrow> string" where
  "substitute_params [] env sql = sql"
| "substitute_params (k # ks) env sql =
     substitute_params ks env
       (case env k of
          None \<Rightarrow> sql
        | Some v \<Rightarrow>
            if HasPrefix k ''PARAM_'' then Replace sql (''{{'' @ drop 6 k @ ''}}'') v else sql)"

definition env_keys :: "string list \<Rightarrow> string list" where
  "env_keys pairs =
     remdups (map (\<lambda>pair. drop (length gPrefix) (hd (Split pair CHR ''='')))
                  (filter (\<lambda>pair. HasPrefix pair gPrefix) pairs))"

text \<open>The query text: the template with its placeholders replaced.\<close>

definition fill_template :: "sys \<Rightarrow> env \<Rightarrow> string \<Rightarrow> string \<Rightarrow> string \<Rightarrow> string \<Rightarrow> string" where
  "fill_template sy env contents projectSlug dtfs dtts =
     (let sql0 = Replace contents ''{{project_slug}}'' projectSlug;
          limit = (case env ''LIMIT'' of Some v \<Rightarrow> v | None \<Rightarrow> []);
          sql1 = (if limit \<noteq> [] then Replace sql0 ''{{limit}}'' limit else sql0);
          offset = (case env ''OFFSET'' of Some v \<Rightarrow> v | None \<Rightarrow> []);
          sql2 = (if offset \<noteq> [] then Replace sql1 ''{{offset}}'' offset else sql1);
          sql3 = substitute_params (env_keys (environ sy)) env sql2;
          sql4 = Replace sql3 ''{{date_from}}'' dtfs
      in Replace sql4 ''{{date_to}}'' dtts)"

text \<open>\<open>calcMetric\<close> from the point where the table name is known.\<close>

definition compute ::
  "sys \<Rightarrow> env \<Rightarrow> string \<Rightarrow> bool \<Rightarrow> world \<Rightarrow> error option \<times> world" where
  "compute sy env table ppt w =
     (let projectSlug = the_default [] (env ''PROJECT_SLUG'');
          timeRange = the_default [] (env ''TIME_RANGE'')
      in case needsCalculation sy table projectSlug timeRange env w of
           ((needsCalc0, dtf0, dtt0, Some err), w1) \<Rightarrow> (Some err, w1)
         | ((needsCalc0, dtf0, dtt0, None), w1) \<Rightarrow>
             (case supportDelete sy table timeRange projectSlug dtf0 dtt0 env w1 of
                (deleted, w2) \<Rightarrow>
                  (case (if deleted then needsCalculation sy table projectSlug timeRange env w2
                         else ((needsCalc0, dtf0, dtt0, None), w2)) of
                     ((needsCalc1, dtf, dtt, err), w3) \<Rightarrow>
                       (let needsCalc = (needsCalc1 \<or> env ''FORCE_CALC'' \<noteq> None)
                        in if \<not> needsCalc then (None, w3)
                           else
                             (let metric = the_default [] (env ''METRIC'');
                                  path = (case env ''SQL_PATH'' of Some v \<Rightarrow> v | None \<Rightarrow> ''./sql/'');
                                  fn = path @ metric @ ''.sql''
                              in case read_file sy fn of
                                   Inl err \<Rightarrow> (Some err, w3)
                                 | Inr contents \<Rightarrow>
                                     (let dtfs = ToYMDQuoted dtf;
                                          dtts = ToYMDQuoted dtt;
                                          sql = fill_template sy env contents projectSlug dtfs dtts
                                      in case calculate sy sql table projectSlug timeRange
                                                dtfs dtts ppt env w3 of
                                           (Some err, w4) \<Rightarrow> (Some err, w4)
                                         | (None, w4) \<Rightarrow>
                                             (None,
                                              supportCleanup sy table timeRange projectSlug
                                                dtf dtt env w4)))))))"

definition calcMetric :: "sys \<Rightarrow> world \<Rightarrow> error option \<times> world" where
  \<open>calcMetric sy w =
     (let env = read_env (environ sy) Map.empty
      in case missing_key env of
           Some key \<Rightarrow> (Some (MissingEnv key), w)
         | None \<Rightarrow>
             (case sql_open sy (the_default [] (env ''CONN'')) of
                Some err \<Rightarrow> (Some err, w)
              | None \<Rightarrow>
                  (let table0 = the_default [] (env ''TABLE'');
                       ppt = (env ''PPT'' \<noteq> None);
                       table = (if ppt
                                then table0 @ ''_'' @ toDBIdentifier (the_default [] (env ''PROJECT_SLUG''))
                                else table0)
                   in if env ''DROP'' \<noteq> None then
                        (case Exec_db sy (''drop table if exists "'' @ table0 @ ''"'') [] w of
                           (Inl err, w1) \<Rightarrow> (Some err, w1)
                         | (Inr res, w1) \<Rightarrow> compute sy env table ppt w1)
                      else compute sy env table ppt w)))\<close>

text \<open>
  \<open>main\<close>: the exit code of the process and the final state.  The process leaves with
  code 0 when \<open>main\<close> returns.
\<close>

definition world0 :: world where
  "world0 = \<lparr>sent = [], ticks = 0, gFinalState = 0\<rparr>"

definition main :: "sys \<Rightarrow> int \<times> world" where
  "main sy =
     (case Now sy world0 of
        (dtStart, w0) \<Rightarrow>
          (case calcMetric sy w0 of
             (err, w1) \<Rightarrow>
               (let rCode = (if err \<noteq> None then 1 else 0);
                    w2 = (if err \<noteq> None then w1\<lparr>gFinalState := - 1\<rparr> else w1)
                in case Now sy w2 of
                     (dtEnd, w3) \<Rightarrow>
                       if rCode \<noteq> 0 then (rCode, w3)
                       else if rCode = 0 \<and> gFinalState w3 = 0 then (66, w3)
                       else (0, w3))))"

section \<open>Notions used in the properties\<close>

text \<open>The day number of the first day of the month with index \<open>12 * year + (month - 1)\<close>.\<close>

definition month_start :: "int \<Rightarrow> int" where
  "month_start M = days_before_year (M div 12) + days_before_month (M div 12) (M mod 12 + 1)"

text \<open>A window with day-aligned bounds, the first strictly before the second.\<close>

definition good :: "gotime \<times> gotime \<Rightarrow> bool" where
  "good win = (day_aligned (fst win) \<and> day_aligned (snd win) \<and> Before (fst win) (snd win))"

text \<open>
  How the window of a code with the suffix \<open>p\<close> lies to the window of the code without
  it: it ends where the other begins, it begins one calendar step of the code earlier
  (for \<open>ty\<close>: the elapsed time of the window earlier), and for the steps counted in days
  and for \<open>ty\<close> that is exactly the length of the window.
\<close>

definition prev_ok :: "sys \<Rightarrow> env \<Rightarrow> world \<Rightarrow> string \<Rightarrow> bool" where
  "prev_ok sy env w code =
    (let wb = window sy code env w; wp = window sy (code @ ''p'') env w
      in snd wp = fst wb
       \<and> fst wp =
           (if code = ''7d'' then AddDate (fst wb) 0 0 (- 7)
            else if code = ''30d'' then
              (if env ''CALC_MONTH_DAILY'' \<noteq> None then AddDate (fst wb) 0 0 (- 30)
               else AddDate (fst wb) 0 (- 1) 0)
            else if code = ''q'' then AddDate (fst wb) 0 (- 3) 0
            else if code = ''y'' then AddDate (fst wb) (- 1) 0 0
            else if code = ''2y'' then AddDate (fst wb) (- 2) 0 0
            else Add (fst wb) (- (unix_ns (snd wb) - unix_ns (fst wb))))
       \<and> (code = ''7d'' \<or> code = ''ty'' \<or> (code = ''30d'' \<and> env ''CALC_MONTH_DAILY'' \<noteq> None)
            \<longrightarrow> unix_ns (fst wp) = unix_ns (fst wb) - (unix_ns (snd wb) - unix_ns (fst wb))))"

text \<open>
  The line of one column in the create-table statement: two blanks, the name, the
  canonical type, and \<open>not null\<close> when the source reports the column as not nullable.
\<close>

definition column_line :: "env \<Rightarrow> column \<Rightarrow> string" where
  "column_line env col =
     ''  '' @ col_name col @ '' '' @ (case dbTypeName col env of Inr tp \<Rightarrow> tp | Inl err \<Rightarrow> [])
       @ (if col_nullable col = Some False then '' not null'' else [])"

text \<open>The loop over the rows keeps these facts about its variables, for \<open>n\<close> columns.\<close>

definition batch_inv :: "nat \<Rightarrow> batch_state \<Rightarrow> bool" where
  "batch_inv n st =
     (b_p st = int (length (b_args st))
      \<and> (b_ep st = 0 \<or> b_ep st = int n)
      \<and> (b_args st \<noteq> [] \<longrightarrow> b_ep st = int n \<and> b_p st < gMaxPlaceholders - (6 + int n)))"

text \<open>
  A row of a metric table, as far as the freshness check reads it: the four columns of
  the key and \<open>last_calculated_at\<close>.  A database is the tables that exist, by name.
\<close>

record key_row =
  k_project_slug :: string
  k_time_range :: string
  k_date_from :: gotime
  k_date_to :: gotime
  k_last_calculated_at :: string

definition has_key :: "string \<Rightarrow> string \<Rightarrow> gotime \<Rightarrow> gotime \<Rightarrow> key_row \<Rightarrow> bool" where
  "has_key projectSlug timeRange dtf dtt r =
     (k_project_slug r = projectSlug \<and> k_time_range r = timeRange
      \<and> k_date_from r = dtf \<and> k_date_to r = dtt)"

text \<open>
  A model of what PostgreSQL answers to the queries of the form
  \<open>select last_calculated_at from "T" where c = $k and ...\<close>, over tables of which the
  identity columns and \<open>last_calculated_at\<close> of each row are kept.  The text of the query
  is read: \<open>pieces\<close> cuts a text at each occurrence of a separator, a condition is a
  column name, \<open> = \<close> and a parameter \<open>$k\<close>, and a row is returned when each condition
  holds of it, the column having the value of the \<open>k\<close>-th parameter.  A text of another
  form is a syntax error; a table, a column or a parameter that does not exist is the
  error that PostgreSQL reports for it.
\<close>

fun pieces :: "nat \<Rightarrow> string \<Rightarrow> string \<Rightarrow> string list" where
  "pieces k [] sep = [[]]"
| "pieces (Suc k) (c # cs) sep = pieces k cs sep"
| "pieces 0 (c # cs) sep =
     (if HasPrefix (c # cs) sep then [] # pieces (length sep - 1) cs sep
      else (case pieces 0 cs sep of [] \<Rightarrow> [[c]] | x # xs \<Rightarrow> (c # x) # xs))"

definition column_value :: "string \<Rightarrow> key_row \<Rightarrow> arg option" where
  "column_value name r =
     (if name = ''project_slug'' then Some (AStr (k_project_slug r))
      else if name = ''time_range'' then Some (AStr (k_time_range r))
      else if name = ''date_from'' then Some (ATime (k_date_from r))
      else if name = ''date_to'' then Some (ATime (k_date_to r))
      else if name = ''last_calculated_at'' then Some (AStr (k_last_calculated_at r))
      else None)"

definition known_column :: "string \<Rightarrow> bool" where
  "known_column name =
     (name \<in> set [''project_slug'', ''time_range'', ''date_from'', ''date_to'', ''last_calculated_at''])"

definition sql_condition :: "string \<Rightarrow> (string \<times> nat) option" where
  "sql_condition s =
     (case pieces 0 s '' = '' of
        [name, p] \<Rightarrow>
          (case p of
             [] \<Rightarrow> None
           | c # ds \<Rightarrow>
               if c = CHR ''$'' \<and> ds \<noteq> [] \<and> list_all (\<lambda>d. digit_val d \<noteq> None) ds
               then Some (name, nat (atoi_digits ds)) else None)
      | _ \<Rightarrow> None)"

definition sql_holds :: "arg list \<Rightarrow> key_row \<Rightarrow> string \<times> nat \<Rightarrow> bool" where
  "sql_holds args r cond =
     (case cond of (name, k) \<Rightarrow> column_value name r = Some (args ! (k - 1)))"

definition pg_select :: "(string \<rightharpoonup> key_row list) \<Rightarrow> string \<Rightarrow> arg list \<Rightarrow> error + rowset" where
  \<open>pg_select tables q args =
     (if \<not> HasPrefix q ''select last_calculated_at from "'' then Inl (PqError ''syntax_error'')
      else
        let rest = drop (length ''select last_calculated_at from "'') q;
            table = takeWhile (\<lambda>c. c \<noteq> CHR 0x22) rest;
            tail = drop (length table + 1) rest;
            conds = (if tail = [] then []
                     else if HasPrefix tail '' where ''
                     then map sql_condition (pieces 0 (drop (length '' where '') tail) '' and '')
                     else [None])
        in if length rest \<le> length table \<or> None \<in> set conds then Inl (PqError ''syntax_error'')
           else
             (case tables table of
                None \<Rightarrow> Inl (PqError ''undefined_table'')
              | Some rs \<Rightarrow>
                  if \<not> list_all (\<lambda>c. known_column (fst (the c))) conds
                  then Inl (PqError ''undefined_column'')
                  else if \<not> list_all (\<lambda>c. 0 < snd (the c) \<and> snd (the c) \<le> length args) conds
                  then Inl (PqError ''undefined_parameter'')
                  else
                    Inr \<lparr>rs_columns =
                           Inr [\<lparr>col_name = ''last_calculated_at'', col_dbtype = ''TIMESTAMP'',
                                 col_nullable = Some False\<rparr>],
                         rs_rows = map (\<lambda>r. Inr [k_last_calculated_at r])
                                     (filter (\<lambda>r. list_all (\<lambda>c. sql_holds args r (the c)) conds) rs),
                         rs_err = None\<rparr>))\<close>


text \<open>
  The statements by their first words: the batches of \<open>calculate\<close>, the deletes of
  \<open>supportDelete\<close> and \<open>supportCleanup\<close>, the query of \<open>isCalculated\<close>.
\<close>

definition is_insert :: "string \<Rightarrow> bool" where
  "is_insert q = HasPrefix q ''insert into ''"

definition is_delete :: "string \<Rightarrow> bool" where
  "is_delete q = HasPrefix q ''delete from ''"

definition is_freshness :: "string \<Rightarrow> bool" where
  "is_freshness q = HasPrefix q ''select last_calculated_at from ''"

fun delete_event :: "event \<Rightarrow> bool" where
  "delete_event (Exec q args) = is_delete q"
| "delete_event (Query q args) = False"

text \<open>
  A call fails when the database answers it with an error; \<open>before\<close> are the calls sent
  earlier.
\<close>

fun failed :: "sys \<Rightarrow> event list \<Rightarrow> event \<Rightarrow> bool" where
  "failed sy before (Query q args) = (case db_query sy before q args of Inl e \<Rightarrow> True | Inr r \<Rightarrow> False)"
| "failed sy before (Exec q args) = (case db_exec sy before q args of Inl e \<Rightarrow> True | Inr r \<Rightarrow> False)"

text \<open>
  The failures that do not end the run: a delete statement, a freshness query (the one
  query that carries parameters) that finds no table, and a freshness query sent after a
  delete statement.
\<close>

fun tolerated :: "sys \<Rightarrow> event list \<Rightarrow> event \<Rightarrow> bool" where
  "tolerated sy before (Query q args) =
     (is_freshness q \<and> args \<noteq> []
      \<and> (db_query sy before q args = Inl (PqError ''undefined_table'') \<or> list_ex delete_event before))"
| "tolerated sy before (Exec q args) = is_delete q"

text \<open>No call of \<open>evs\<close>, sent after \<open>before\<close>, fails without being tolerated.\<close>

fun clean :: "sys \<Rightarrow> event list \<Rightarrow> event list \<Rightarrow> bool" where
  "clean sy before [] = True"
| "clean sy before (ev # evs) =
     ((failed sy before ev \<longrightarrow> tolerated sy before ev) \<and> clean sy (before @ [ev]) evs)"

text \<open>A batch that the database executed and for which it reported at least one row.\<close>

fun changed_rows :: "sys \<Rightarrow> event list \<Rightarrow> event \<Rightarrow> bool" where
  "changed_rows sy before (Query q args) = False"
| "changed_rows sy before (Exec q args) =
     (is_insert q \<and> (case db_exec sy before q args of Inr (Inr n) \<Rightarrow> n > 0 | _ \<Rightarrow> False))"

fun some_change :: "sys \<Rightarrow> event list \<Rightarrow> event list \<Rightarrow> bool" where
  "some_change sy before [] = False"
| "some_change sy before (ev # evs) =
     (changed_rows sy before ev \<or> some_change sy (before @ [ev]) evs)"

text \<open>
  What a part of the run does to the state: it sends calls, none of which fails
  untolerated unless it is the last one and the part ends with an error; and when the
  part ends without an error, \<open>gFinalState\<close> has become 1 if a batch changed rows and is
  as before otherwise.
\<close>

definition run_ok :: "sys \<Rightarrow> world \<Rightarrow> world \<Rightarrow> bool \<Rightarrow> bool" where
  "run_ok sy w w' err =
     (\<exists>new. sent w' = sent w @ new
        \<and> clean sy (sent w) (if err then butlast new else new)
        \<and> (\<not> err \<longrightarrow> gFinalState w' = (if some_change sy (sent w) new then 1 else gFinalState w)))"

text \<open>
  The loop over the rows keeps the text of the batch in step with its parameters: the
  text is empty or begins as an insert statement, and it is not empty while parameters
  are waiting.
\<close>

definition query_inv :: "batch_state \<Rightarrow> bool" where
  "query_inv st =
     ((b_query st = [] \<or> is_insert (b_query st)) \<and> (b_args st \<noteq> [] \<longrightarrow> b_query st \<noteq> []))"

text \<open>The number of bound parameters of a call.\<close>

fun params :: "event \<Rightarrow> nat" where
  "params (Query q args) = length args"
| "params (Exec q args) = length args"

section \<open>Concrete surroundings for the examples\<close>

text \<open>
  A system whose clock always shows \<open>now\<close>, whose database has no table yet (every query
  fails with \<open>undefined_table\<close>) and accepts every statement, reporting \<open>n\<close> affected rows.
\<close>

definition fresh_sys :: "gotime \<Rightarrow> string list \<Rightarrow> int \<Rightarrow> sys" where
  "fresh_sys now vars n =
     \<lparr>environ = vars,
      sql_open = (\<lambda>conn. None),
      db_query = (\<lambda>before q args. Inl (PqError ''undefined_table'')),
      db_exec = (\<lambda>before q args. Inr (Inr n)),
      read_file = (\<lambda>fn. Inr ''select 1''),
      clock = (\<lambda>k. now),
      week_first_day = 1\<rparr>"

text \<open>
  A result set of \<open>n\<close> text columns with distinct names and one row of empty values, and
  a system whose database answers every query with it.
\<close>

definition wide_columns :: "nat \<Rightarrow> column list" where
  "wide_columns n =
     map (\<lambda>i. \<lparr>col_name = replicate (Suc i) CHR ''c'', col_dbtype = ''text'',
               col_nullable = None\<rparr>) [0 ..< n]"

definition wide_sys :: "nat \<Rightarrow> sys" where
  "wide_sys n =
     (fresh_sys (Date 2026 11 3 15 0 0 0 UTC) [] 1)
       \<lparr>db_query := (\<lambda>before q args.
          Inr \<lparr>rs_columns = Inr (wide_columns n), rs_rows = [Inr (replicate n [])],
               rs_err = None\<rparr>)\<rparr>"

text \<open>A table with one row for the window of October 2023, and a system whose database
  answers every query as the given tables do.\<close>

definition one_row_tables :: "string \<rightharpoonup> key_row list" where
  "one_row_tables =
     [''t'' \<mapsto> [\<lparr>k_project_slug = ''envoy'', k_time_range = ''c'',
                  k_date_from = Date 2023 10 1 0 0 0 0 UTC, k_date_to = Date 2023 11 1 0 0 0 0 UTC,
                  k_last_calculated_at = ''2023-11-02 03:04:05''\<rparr>]]"

definition table_sys :: "(string \<rightharpoonup> key_row list) \<Rightarrow> sys" where
  "table_sys tables =
     (fresh_sys (Date 2026 11 3 15 0 0 0 UTC) [] 1)
       \<lparr>db_query := (\<lambda>before q args. pg_select tables q args)\<rparr>"

(*DEFS-END*)

section \<open>Evaluation rules\<close>

lemmas str_eval = itoa_def digits.simps digit_char_def HasPrefix_def Replace_def
  ToLower_def lower_char_def

lemmas db_eval = Query_db_def Exec_db_def Now_def

section \<open>The calendar\<close>

lemma div_lo: "0 < k \<Longrightarrow> k * ((x::int) div k) \<le> x"
  by (metis mult_div_mod_eq pos_mod_sign le_add_same_cancel1)

lemma div_hi: "0 < k \<Longrightarrow> (x::int) < k * (x div k) + k"
  by (metis mult_div_mod_eq pos_mod_bound add_less_cancel_left)

lemma div_pred:
  fixes x k :: int
  assumes k: "0 < k"
  shows "x div k = (x - 1) div k + (if x mod k = 0 then 1 else 0)"
proof (cases "x mod k = 0")
  case True
  have e: "x = k * (x div k)" using True by (metis mult_div_mod_eq add.right_neutral)
  have "x - 1 = k * (x div k - 1) + (k - 1)"
    using e by (simp add: right_diff_distrib)
  then have "(x - 1) div k = x div k - 1"
    using k by (intro int_div_pos_eq [where r = "k - 1"]) auto
  then show ?thesis using True by simp
next
  case False
  have r: "0 \<le> x mod k" "x mod k < k" using k by simp_all
  have "x - 1 = k * (x div k) + (x mod k - 1)"
    by (simp add: mult_div_mod_eq)
  then have "(x - 1) div k = x div k"
    using k r False by (intro int_div_pos_eq [where r = "x mod k - 1"]) auto
  then show ?thesis using False by simp
qed

lemma dby_bounds:
  "146097 * (y - 1970) - 506 \<le> 400 * days_before_year y"
  "400 * days_before_year y \<le> 146097 * (y - 1970) + 589"
proof -
  define a where "a = (y - 1) div 4"
  define b where "b = (y - 1) div 100"
  define c where "c = (y - 1) div 400"
  have a: "4 * a \<le> y - 1" "y - 1 < 4 * a + 4"
    unfolding a_def by (rule div_lo, simp) (rule div_hi, simp)
  have b: "100 * b \<le> y - 1" "y - 1 < 100 * b + 100"
    unfolding b_def by (rule div_lo, simp) (rule div_hi, simp)
  have c: "400 * c \<le> y - 1" "y - 1 < 400 * c + 400"
    unfolding c_def by (rule div_lo, simp) (rule div_hi, simp)
  have d: "days_before_year y = 365 * (y - 1970) + (a - b + c) - 477"
    by (simp add: days_before_year_def a_def b_def c_def)
  have a': "100 * y - 400 \<le> 400 * a" "400 * a \<le> 100 * y - 100" using a by linarith+
  have b': "4 * y - 400 \<le> 400 * b" "400 * b \<le> 4 * y - 4" using b by linarith+
  have c': "y - 400 \<le> 400 * c" "400 * c \<le> y - 1" using c by linarith+
  show "146097 * (y - 1970) - 506 \<le> 400 * days_before_year y"
    using a' b' c' unfolding d by simp
  show "400 * days_before_year y \<le> 146097 * (y - 1970) + 589"
    using a' b' c' unfolding d by simp
qed

lemma year_of_days_lower: "days_before_year (year_of_days n) \<le> n"
  using dby_bounds [of "1970 + (400 * n) div 146097 - 1"]
    div_lo [of 146097 "400 * n"] div_hi [of 146097 "400 * n"]
  unfolding year_of_days_def Let_def
  by (auto split: if_splits)

lemma year_of_days_upper: "n < days_before_year (year_of_days n + 1)"
  using dby_bounds [of "1970 + (400 * n) div 146097 + 2"]
    div_lo [of 146097 "400 * n"] div_hi [of 146097 "400 * n"]
  unfolding year_of_days_def Let_def
  by (auto split: if_splits)

lemma days_before_year_Suc:
  "days_before_year (y + 1) = days_before_year y + (if is_leap y then 366 else 365)"
proof -
  have 4: "y div 4 = (y - 1) div 4 + (if y mod 4 = 0 then 1 else 0)"
    by (rule div_pred) simp
  have 100: "y div 100 = (y - 1) div 100 + (if y mod 100 = 0 then 1 else 0)"
    by (rule div_pred) simp
  have 400: "y div 400 = (y - 1) div 400 + (if y mod 400 = 0 then 1 else 0)"
    by (rule div_pred) simp
  have "y mod 100 mod 4 = y mod 4" by (rule mod_mod_cancel) simp
  then have m1: "y mod 100 = 0 \<Longrightarrow> y mod 4 = 0" by auto
  have "y mod 400 mod 100 = y mod 100" by (rule mod_mod_cancel) simp
  then have m2: "y mod 400 = 0 \<Longrightarrow> y mod 100 = 0" by auto
  have "days_before_year (y + 1) - days_before_year y
          = 365 + (y div 4 - (y - 1) div 4) - (y div 100 - (y - 1) div 100)
                + (y div 400 - (y - 1) div 400)"
    unfolding days_before_year_def by simp
  also have "\<dots> = 365 + (if y mod 4 = 0 then 1 else 0) - (if y mod 100 = 0 then 1 else 0)
                + (if y mod 400 = 0 then 1 else 0)"
    unfolding 4 100 400 by simp
  also have "\<dots> = (if is_leap y then 366 else 365)"
    unfolding is_leap_def using m1 m2 by (cases "y mod 4 = 0"; cases "y mod 100 = 0"; cases "y mod 400 = 0") simp_all
  finally show ?thesis by simp
qed

lemma month_of_yday_range: "1 \<le> month_of_yday y yd \<and> month_of_yday y yd \<le> 12"
  unfolding month_of_yday_def by simp

lemma days_before_month_simps:
  "days_before_month y 1 = 0"
  "days_before_month y 2 = 31"
  "days_before_month y 3 = 59 + (if is_leap y then 1 else 0)"
  "days_before_month y 4 = 90 + (if is_leap y then 1 else 0)"
  "days_before_month y 5 = 120 + (if is_leap y then 1 else 0)"
  "days_before_month y 6 = 151 + (if is_leap y then 1 else 0)"
  "days_before_month y 7 = 181 + (if is_leap y then 1 else 0)"
  "days_before_month y 8 = 212 + (if is_leap y then 1 else 0)"
  "days_before_month y 9 = 243 + (if is_leap y then 1 else 0)"
  "days_before_month y 10 = 273 + (if is_leap y then 1 else 0)"
  "days_before_month y 11 = 304 + (if is_leap y then 1 else 0)"
  "days_before_month y 12 = 334 + (if is_leap y then 1 else 0)"
  unfolding days_before_month_def by simp_all

lemma month_of_yday_lower:
  "0 \<le> yd \<Longrightarrow> days_before_month y (month_of_yday y yd) \<le> yd"
  unfolding month_of_yday_def by (cases "is_leap y") (simp_all add: days_before_month_simps)

lemma days_from_civil_month_start:
  "days_from_civil y m d = month_start (12 * y + (m - 1)) + d - 1"
proof -
  have "(12 * y + (m - 1)) div 12 = y + (m - 1) div 12" by simp
  moreover have "(12 * y + (m - 1)) mod 12 = (m - 1) mod 12" by simp
  ultimately show ?thesis
    unfolding days_from_civil_def month_start_def Let_def by simp
qed

lemma month_start_Suc: "month_start M < month_start (M + 1)"
proof -
  define y where "y = M div 12"
  define r where "r = M mod 12"
  have M: "M = 12 * y + r" unfolding y_def r_def by simp
  have r: "0 \<le> r" "r < 12" unfolding r_def by simp_all
  then have "r = 0 \<or> r = 1 \<or> r = 2 \<or> r = 3 \<or> r = 4 \<or> r = 5
    \<or> r = 6 \<or> r = 7 \<or> r = 8 \<or> r = 9 \<or> r = 10 \<or> r = 11"
    by presburger
  then consider "r = 0" | "r = 1" | "r = 2" | "r = 3" | "r = 4" | "r = 5"
    | "r = 6" | "r = 7" | "r = 8" | "r = 9" | "r = 10" | "r = 11"
    by blast
  then show ?thesis
  proof cases
    case 12
    have a: "(M + 1) div 12 = y + 1" "(M + 1) mod 12 = 0" "M div 12 = y" "M mod 12 = 11"
      unfolding M 12 by simp_all
    show ?thesis
      unfolding month_start_def a
      by (simp add: days_before_month_simps days_before_year_Suc)
  qed (simp_all add: month_start_def M days_before_month_simps)
qed

lemma month_start_mono: "0 < k \<Longrightarrow> month_start (M - int k) < month_start M"
proof (induction k)
  case 0
  then show ?case by simp
next
  case (Suc k)
  have "month_start (M - int (Suc k)) < month_start (M - int (Suc k) + 1)"
    by (rule month_start_Suc)
  also have "M - int (Suc k) + 1 = M - int k" by simp
  also have "month_start (M - int k) \<le> month_start M"
    using Suc.IH by (cases "k = 0") auto
  finally show ?case .
qed

lemma month_start_less: "M < N \<Longrightarrow> month_start M < month_start N"
  using month_start_mono [of "nat (N - M)" N] by simp

lemma unix_ns_Date_midnight:
  "unix_ns (Date y m d 0 0 0 0 UTC) = days_from_civil y m d * 86400000000000"
  by (simp add: Date_def UTC_def)

lemma zone_Date: "zone (Date y m d h mi s ns loc) = loc"
  by (simp add: Date_def)

lemma day_aligned_Date: "day_aligned (Date y m d 0 0 0 0 UTC)"
  by (simp add: day_aligned_def unix_ns_Date_midnight zone_Date)

lemma day_number_Date: "day_number (Date y m d 0 0 0 0 UTC) = days_from_civil y m d"
  by (simp add: day_number_def local_secs_def Date_def UTC_def)

lemma day_aligned_unix:
  assumes "day_aligned t"
  shows "unix_ns t = day_number t * 86400000000000"
proof -
  have z: "zone t = 0" and m: "unix_ns t mod 86400000000000 = 0"
    using assms by (simp_all add: day_aligned_def UTC_def)
  have "unix_ns t = 86400000000000 * (unix_ns t div 86400000000000)"
    using m by (metis mult_div_mod_eq add.right_neutral)
  moreover have "unix_ns t div 1000000000 div 86400 = unix_ns t div 86400000000000"
    by (simp add: div_mult2_eq [symmetric])
  ultimately show ?thesis
    by (simp add: day_number_def local_secs_def z)
qed

lemma day_aligned_clock:
  assumes "day_aligned t"
  shows "Hour t = 0" "Minute t = 0" "Second t = 0" "Nanosecond t = 0" "zone t = UTC"
proof -
  define D where "D = day_number t"
  have u: "unix_ns t = D * 86400000000000"
    using day_aligned_unix [OF assms] by (simp add: D_def)
  have z: "zone t = 0" using assms by (simp add: day_aligned_def UTC_def)
  have l: "local_secs t = D * 86400"
    by (simp add: local_secs_def u z)
  show "Hour t = 0" by (simp add: Hour_def l)
  have "D * 86400 = (D * 24) * 3600" by simp
  then show "Minute t = 0" unfolding Minute_def l by (metis mod_mult_self2_is_0 div_0)
  have "D * 86400 = (D * 1440) * 60" by simp
  then show "Second t = 0" unfolding Second_def l by (metis mod_mult_self2_is_0)
  have "D * 86400000000000 = (D * 86400) * 1000000000" by simp
  then show "Nanosecond t = 0" unfolding Nanosecond_def u by (metis mod_mult_self2_is_0)
  show "zone t = UTC" using assms by (simp add: day_aligned_def)
qed

lemma civil_roundtrip: "days_from_civil (Year t) (Month t) (Day t) = day_number t"
proof -
  have r: "1 \<le> Month t" "Month t \<le> 12"
    using month_of_yday_range [of "Year t" "day_number t - days_before_year (Year t)"]
    by (simp_all add: Month_def)
  then have "(Month t - 1) div 12 = 0" "(Month t - 1) mod 12 = Month t - 1"
    by simp_all
  then show ?thesis
    by (simp add: days_from_civil_def Day_def)
qed

lemma day_aligned_DayStart: "day_aligned (DayStart t)"
  by (simp add: DayStart_def day_aligned_Date)

lemma day_number_DayStart: "day_number (DayStart t) = day_number t"
  by (simp add: DayStart_def day_number_Date civil_roundtrip)

lemma AddDate_aligned:
  assumes "day_aligned t"
  shows "AddDate t a b c = Date (Year t + a) (Month t + b) (Day t + c) 0 0 0 0 UTC"
  by (simp add: AddDate_def day_aligned_clock [OF assms])

lemma day_aligned_AddDate: "day_aligned t \<Longrightarrow> day_aligned (AddDate t a b c)"
  by (simp add: AddDate_aligned day_aligned_Date)

lemma days_from_civil_day: "days_from_civil y m (d + k) = days_from_civil y m d + k"
  by (simp add: days_from_civil_def Let_def)

lemma AddDate_days:
  assumes "day_aligned t"
  shows "unix_ns (AddDate t 0 0 k) = unix_ns t + k * 86400000000000"
proof -
  have "days_from_civil (Year t) (Month t) (Day t + k) = day_number t + k"
    by (simp only: days_from_civil_day civil_roundtrip)
  then show ?thesis
    by (simp add: AddDate_aligned [OF assms] unix_ns_Date_midnight
        day_aligned_unix [OF assms] algebra_simps)
qed

lemma AddDate_months_back:
  assumes "day_aligned t" "0 < y \<or> (y = 0 \<and> 0 < m)" "0 \<le> m"
  shows "unix_ns (AddDate t (- y) (- m) 0) < unix_ns t"
proof -
  have "12 * (Year t + - y) + (Month t + - m - 1) < 12 * Year t + (Month t - 1)"
    using assms(2,3) by auto
  then have "month_start (12 * (Year t + - y) + (Month t + - m - 1))
             < month_start (12 * Year t + (Month t - 1))"
    by (rule month_start_less)
  then have "days_from_civil (Year t + - y) (Month t + - m) (Day t)
             < days_from_civil (Year t) (Month t) (Day t)"
    by (simp add: days_from_civil_month_start)
  then show ?thesis
    by (simp add: AddDate_aligned [OF assms(1)] unix_ns_Date_midnight civil_roundtrip
        day_aligned_unix [OF assms(1)])
qed

lemma day_bounds: "1 \<le> Day t"
proof -
  have "0 \<le> day_number t - days_before_year (Year t)"
    using year_of_days_lower [of "day_number t"] by (simp add: Year_def)
  then have "days_before_month (Year t) (Month t) \<le> day_number t - days_before_year (Year t)"
    unfolding Month_def by (rule month_of_yday_lower)
  then show ?thesis by (simp add: Day_def)
qed

lemma days_before_month_nonneg: "1 \<le> m \<Longrightarrow> m \<le> 12 \<Longrightarrow> 0 \<le> days_before_month y m"
proof -
  assume "1 \<le> m" "m \<le> 12"
  then have "m = 1 \<or> m = 2 \<or> m = 3 \<or> m = 4 \<or> m = 5 \<or> m = 6
    \<or> m = 7 \<or> m = 8 \<or> m = 9 \<or> m = 10 \<or> m = 11 \<or> m = 12"
    by presburger
  then show ?thesis by (auto simp: days_before_month_simps)
qed

lemma year_day_range:
  "0 \<le> day_number t - days_before_year (Year t)"
  "day_number t - days_before_year (Year t) < 366"
  using year_of_days_lower [of "day_number t"] year_of_days_upper [of "day_number t"]
    days_before_year_Suc [of "Year t"]
  by (simp_all add: Year_def split: if_splits)

lemma days_from_civil_Jan1: "days_from_civil y 1 1 = days_before_year y"
  by (simp add: days_from_civil_def days_before_month_simps)

lemma day_aligned_YearStart: "day_aligned (YearStart t)"
  by (simp add: YearStart_def day_aligned_Date)

lemma day_aligned_MonthStart: "day_aligned (MonthStart t)"
  by (simp add: MonthStart_def day_aligned_Date)

lemma day_aligned_QuarterStart: "day_aligned (QuarterStart t)"
  by (simp add: QuarterStart_def day_aligned_Date)

lemma day_aligned_WeekStart: "day_aligned (WeekStart k t)"
  by (simp add: WeekStart_def day_aligned_AddDate day_aligned_DayStart)

lemmas aligned_intros = day_aligned_YearStart day_aligned_MonthStart day_aligned_QuarterStart
  day_aligned_WeekStart day_aligned_DayStart day_aligned_AddDate day_aligned_Date

lemma back_days: "day_aligned t \<Longrightarrow> 0 < k \<Longrightarrow> Before (AddDate t 0 0 (- k)) t"
  by (simp add: Before_def AddDate_days)

lemma back_months: "day_aligned t \<Longrightarrow> 0 < m \<Longrightarrow> Before (AddDate t 0 (- m) 0) t"
  using AddDate_months_back [of t 0 m] by (simp add: Before_def)

lemma back_years: "day_aligned t \<Longrightarrow> 0 < y \<Longrightarrow> Before (AddDate t (- y) 0 0) t"
  using AddDate_months_back [of t y 0] by (simp add: Before_def)

text \<open>The year-to-date window runs from the first of January to today.\<close>

lemma year_to_date:
  "unix_ns (DayStart t) - unix_ns (YearStart t)
     = (day_number t - days_before_year (Year t)) * 86400000000000"
  by (simp add: DayStart_def YearStart_def unix_ns_Date_midnight civil_roundtrip
      days_from_civil_Jan1 algebra_simps)

lemma Sub_year_to_date:
  "Sub (DayStart t) (YearStart t) = unix_ns (DayStart t) - unix_ns (YearStart t)"
  using year_day_range [of t]
  unfolding Sub_def Let_def year_to_date by simp

lemma TimeParseAny_2100:
  "TimeParseAny sy ''2100'' w = ((Date 2100 1 1 0 0 0 0 UTC, None), w)"
  unfolding TimeParseAny_def by code_simp

lemma TimeParseAny_1970:
  "TimeParseAny sy ''1970'' w = ((Date 1970 1 1 0 0 0 0 UTC, None), w)"
  unfolding TimeParseAny_def by code_simp

lemma Before_1970_2100: "Before (Date 1970 1 1 0 0 0 0 UTC) (Date 2100 1 1 0 0 0 0 UTC)"
  by code_simp

lemma first_of_January:
  "(day_number t = days_before_year (Year t)) = (Month t = 1 \<and> Day t = 1)"
proof
  assume a: "day_number t = days_before_year (Year t)"
  have m: "Month t = 1"
    unfolding Month_def a month_of_yday_def
    by (cases "is_leap (Year t)") (simp_all add: days_before_month_simps)
  show "Month t = 1 \<and> Day t = 1"
    using m by (simp add: Day_def a days_before_month_simps)
next
  assume "Month t = 1 \<and> Day t = 1"
  then show "day_number t = days_before_year (Year t)"
    by (auto simp: Day_def days_before_month_simps)
qed

lemma window_ty:
  "window sy ''ty'' env w = (YearStart (clock sy (ticks w)), DayStart (clock sy (ticks w)))"
  by (simp add: window_def currentTimeRange_def Now_def)

lemma window_typ:
  "window sy ''typ'' env w =
     (Add (YearStart (clock sy (ticks w)))
          (- (unix_ns (DayStart (clock sy (ticks w))) - unix_ns (YearStart (clock sy (ticks w))))),
      Add (DayStart (clock sy (ticks w)))
          (- (unix_ns (DayStart (clock sy (ticks w))) - unix_ns (YearStart (clock sy (ticks w))))))"
  by (simp add: window_def currentTimeRange_def Now_def Sub_year_to_date Let_def)

lemma ty_ordered: "unix_ns (YearStart t) \<le> unix_ns (DayStart t)"
proof -
  have "0 \<le> (day_number t - days_before_year (Year t)) * 86400000000000"
    using year_day_range(1) [of t] by simp
  then have "0 \<le> unix_ns (DayStart t) - unix_ns (YearStart t)"
    by (simp only: year_to_date)
  then show ?thesis by simp
qed

lemma day_aligned_dvd: "day_aligned t = (zone t = UTC \<and> 86400000000000 dvd unix_ns t)"
  by (simp add: day_aligned_def mod_eq_0_iff_dvd)

lemma day_aligned_shift:
  assumes "day_aligned t" "day_aligned u" "day_aligned v"
  shows "day_aligned (Add t (unix_ns v - unix_ns u))"
proof -
  have "86400000000000 dvd unix_ns t + (unix_ns v - unix_ns u)"
    using assms unfolding day_aligned_dvd
    by (intro dvd_add dvd_diff) simp_all
  then show ?thesis
    using assms(1) by (simp add: day_aligned_dvd Add_def)
qed

lemma unix_ns_Add: "unix_ns (Add t d) = unix_ns t + d"
  by (simp add: Add_def)

lemma ty_windows:
  fixes sy env w
  shows "day_aligned (fst (window sy ''ty'' env w))" "day_aligned (snd (window sy ''ty'' env w))"
    "\<not> Before (snd (window sy ''ty'' env w)) (fst (window sy ''ty'' env w))"
    "day_aligned (fst (window sy ''typ'' env w))" "day_aligned (snd (window sy ''typ'' env w))"
    "\<not> Before (snd (window sy ''typ'' env w)) (fst (window sy ''typ'' env w))"
  using ty_ordered [of "clock sy (ticks w)"]
  by (simp_all add: window_ty window_typ aligned_intros day_aligned_shift Before_def unix_ns_Add)

lemma window_a:
  "window sy ''a'' env w = (Date 1970 1 1 0 0 0 0 UTC, Date 2100 1 1 0 0 0 0 UTC)"
  by (simp add: window_def currentTimeRange_def Now_def TimeParseAny_2100 TimeParseAny_1970)

lemma good_days:
  "day_aligned dtt \<Longrightarrow> 0 < k \<Longrightarrow> good (shift_back b 0 0 (- k) (AddDate dtt 0 0 (- k), dtt))"
  by (simp add: good_def shift_back_def aligned_intros back_days)

lemma good_months:
  "day_aligned dtt \<Longrightarrow> 0 < k \<Longrightarrow> good (shift_back b 0 (- k) 0 (AddDate dtt 0 (- k) 0, dtt))"
  by (simp add: good_def shift_back_def aligned_intros back_months)

lemma good_years:
  "day_aligned dtt \<Longrightarrow> 0 < k \<Longrightarrow> good (shift_back b (- k) 0 0 (AddDate dtt (- k) 0 0, dtt))"
  by (simp add: good_def shift_back_def aligned_intros back_years)

lemmas good_intros = good_days good_months good_years aligned_intros

lemma good_seven_d: "good (window sy ''7d'' env w)"
  unfolding window_def currentTimeRange_def Now_def Let_def
  by (cases "env ''CALC_WEEK_DAILY''") (simp_all add: good_intros)

lemma good_seven_dp: "good (window sy ''7dp'' env w)"
  unfolding window_def currentTimeRange_def Now_def Let_def
  by (cases "env ''CALC_WEEK_DAILY''") (simp_all add: good_intros)

lemma good_thirty_d: "good (window sy ''30d'' env w)"
  unfolding window_def currentTimeRange_def Now_def Let_def
  by (cases "env ''CALC_MONTH_DAILY''") (simp_all add: good_intros)

lemma good_thirty_dp: "good (window sy ''30dp'' env w)"
  unfolding window_def currentTimeRange_def Now_def Let_def
  by (cases "env ''CALC_MONTH_DAILY''") (simp_all add: good_intros)

lemma good_q: "good (window sy ''q'' env w)"
  unfolding window_def currentTimeRange_def Now_def Let_def
  by (cases "env ''CALC_QUARTER_DAILY''") (simp_all add: good_intros)

lemma good_qp: "good (window sy ''qp'' env w)"
  unfolding window_def currentTimeRange_def Now_def Let_def
  by (cases "env ''CALC_QUARTER_DAILY''") (simp_all add: good_intros)

lemma good_y: "good (window sy ''y'' env w)"
  unfolding window_def currentTimeRange_def Now_def Let_def
  by (cases "env ''CALC_YEAR_DAILY''") (simp_all add: good_intros)

lemma good_yp: "good (window sy ''yp'' env w)"
  unfolding window_def currentTimeRange_def Now_def Let_def
  by (cases "env ''CALC_YEAR_DAILY''") (simp_all add: good_intros)

lemma good_two_y: "good (window sy ''2y'' env w)"
  unfolding window_def currentTimeRange_def Now_def Let_def
  by (cases "env ''CALC_YEAR2_DAILY''"; cases "Year (clock sy (ticks w)) mod 2 = 1")
     (simp_all add: good_intros)

lemma good_two_yp: "good (window sy ''2yp'' env w)"
  unfolding window_def currentTimeRange_def Now_def Let_def
  by (cases "env ''CALC_YEAR2_DAILY''"; cases "Year (clock sy (ticks w)) mod 2 = 1")
     (simp_all add: good_intros)

lemma needsCalculation_c:
  assumes "needsCalculation sy table projectSlug ''c'' env w = ((needs, dtf, dtt, None), w')"
  shows "day_aligned dtf \<and> day_aligned dtt"
  using assms
  by (auto simp: needsCalculation_def range_codes_def Let_def aligned_intros
      split: option.splits prod.splits)

lemma good_range_codes:
  assumes "timeRange \<in> set range_codes" "timeRange \<noteq> ''ty''" "timeRange \<noteq> ''typ''"
  shows "good (window sy timeRange env w)"
proof -
  have m: "timeRange \<in> {''7d'', ''7dp'', ''30d'', ''30dp'', ''q'', ''qp'', ''y'', ''yp'', ''2y'', ''2yp'', ''a''}"
    using assms by (simp add: range_codes_def)
  have a: "good (window sy ''a'' env w)"
    by (simp add: window_a good_def aligned_intros Before_1970_2100)
  from m show ?thesis
    by (elim insertE emptyE)
      (simp_all only: a good_seven_d good_seven_dp good_thirty_d good_thirty_dp good_q good_qp
         good_y good_yp good_two_y good_two_yp)
qed

lemma unix_ns_DayStart: "unix_ns (DayStart t) = day_number t * 86400000000000"
  by (simp add: DayStart_def unix_ns_Date_midnight civil_roundtrip)

lemma Before_DayStart: "Before (DayStart t) (DayStart u) = (day_number t < day_number u)"
  by (simp add: Before_def unix_ns_DayStart)

lemma ty_strict:
  "Before (YearStart t) (DayStart t) = (\<not> (Month t = 1 \<and> Day t = 1))"
proof -
  have "Before (YearStart t) (DayStart t) = (0 < unix_ns (DayStart t) - unix_ns (YearStart t))"
    by (simp add: Before_def)
  also have "\<dots> = (0 < day_number t - days_before_year (Year t))"
    by (simp only: year_to_date) simp
  also have "\<dots> = (day_number t \<noteq> days_before_year (Year t))"
    using year_day_range(1) [of t] by auto
  finally show ?thesis by (simp add: first_of_January)
qed

lemma ty_typ_strict:
  "Before (fst (window sy ''ty'' env w)) (snd (window sy ''ty'' env w))
     = (\<not> (Month (clock sy (ticks w)) = 1 \<and> Day (clock sy (ticks w)) = 1))"
  "Before (fst (window sy ''typ'' env w)) (snd (window sy ''typ'' env w))
     = (\<not> (Month (clock sy (ticks w)) = 1 \<and> Day (clock sy (ticks w)) = 1))"
  using ty_strict [of "clock sy (ticks w)"]
  by (simp_all add: window_ty window_typ Before_def unix_ns_Add)

lemma needsCalculation_c_bounds:
  assumes "needsCalculation sy table projectSlug ''c'' env w = ((needs, dtf, dtt, None), w')"
  shows "\<exists>dtFrom dtTo pf pt. env ''DATE_FROM'' = Some dtFrom \<and> env ''DATE_TO'' = Some dtTo
           \<and> first_parse formats dtFrom = Some pf \<and> first_parse formats dtTo = Some pt
           \<and> dtf = DayStart pf \<and> dtt = DayStart pt"
  using assms
  by (auto simp: needsCalculation_def range_codes_def Let_def TimeParseAny_def Now_def
      split: option.splits prod.splits)

lemma needsCalculation_c_total:
  assumes "env ''DATE_FROM'' = Some dtFrom" "env ''DATE_TO'' = Some dtTo"
    and "first_parse formats dtFrom = Some pf" "first_parse formats dtTo = Some pt"
  shows "\<exists>needs err w'. needsCalculation sy table projectSlug ''c'' env w
           = ((needs, DayStart pf, DayStart pt, err), w')"
  using assms
  by (auto simp: needsCalculation_def range_codes_def Let_def TimeParseAny_def
      split: option.splits prod.splits)

text \<open>
  C6 (amended).  For each of the thirteen codes that \<open>currentTimeRange\<close> resolves, at
  every time of the clock and under every configuration, both bounds are day-aligned
  (midnight, UTC) and \<open>date_to\<close> is never before \<open>date_from\<close>; \<open>date_from\<close> is strictly
  before \<open>date_to\<close> in every case but one: the codes \<open>ty\<close> and \<open>typ\<close> on the first of
  January, where the two bounds are equal.  For the code \<open>c\<close>, when \<open>DATE_FROM\<close> and
  \<open>DATE_TO\<close> are set and parse, \<open>needsCalculation\<close> returns as bounds the starts of the
  days of the two parsed dates, which are day-aligned, and \<open>date_from\<close> is before
  \<open>date_to\<close> exactly when the day of \<open>DATE_FROM\<close> is before the day of \<open>DATE_TO\<close>: the
  program does not compare them.  Bounds that \<open>needsCalculation\<close> returns for \<open>c\<close>
  without an error always come from the two configured dates in this way.
\<close>

theorem window_aligned_ordered:
  "(timeRange \<in> set range_codes \<longrightarrow>
      day_aligned (fst (window sy timeRange env w))
      \<and> day_aligned (snd (window sy timeRange env w))
      \<and> \<not> Before (snd (window sy timeRange env w)) (fst (window sy timeRange env w))
      \<and> (Before (fst (window sy timeRange env w)) (snd (window sy timeRange env w))
           \<longleftrightarrow> \<not> ((timeRange = ''ty'' \<or> timeRange = ''typ'')
                  \<and> Month (clock sy (ticks w)) = 1 \<and> Day (clock sy (ticks w)) = 1)))
   \<and> (env ''DATE_FROM'' = Some dtFrom \<longrightarrow> env ''DATE_TO'' = Some dtTo \<longrightarrow>
      first_parse formats dtFrom = Some pf \<longrightarrow> first_parse formats dtTo = Some pt \<longrightarrow>
        (\<exists>needs err w'. needsCalculation sy table projectSlug ''c'' env w
            = ((needs, DayStart pf, DayStart pt, err), w'))
        \<and> day_aligned (DayStart pf) \<and> day_aligned (DayStart pt)
        \<and> (Before (DayStart pf) (DayStart pt) \<longleftrightarrow> day_number pf < day_number pt))
   \<and> (needsCalculation sy table projectSlug ''c'' env w = ((needs, dtf, dtt, None), w') \<longrightarrow>
        (\<exists>dtFrom dtTo pf pt. env ''DATE_FROM'' = Some dtFrom \<and> env ''DATE_TO'' = Some dtTo
           \<and> first_parse formats dtFrom = Some pf \<and> first_parse formats dtTo = Some pt
           \<and> dtf = DayStart pf \<and> dtt = DayStart pt))"
proof (intro conjI impI)
  assume c: "timeRange \<in> set range_codes"
  show "day_aligned (fst (window sy timeRange env w))"
    using good_range_codes [OF c, of sy env w] ty_windows(1,4) [of sy env w]
    by (auto simp: good_def)
  show "day_aligned (snd (window sy timeRange env w))"
    using good_range_codes [OF c, of sy env w] ty_windows(2,5) [of sy env w]
    by (auto simp: good_def)
  show "\<not> Before (snd (window sy timeRange env w)) (fst (window sy timeRange env w))"
  proof (cases "timeRange = ''ty'' \<or> timeRange = ''typ''")
    case True
    then show ?thesis using ty_windows(3,6) [of sy env w] by auto
  next
    case False
    then have "good (window sy timeRange env w)"
      using good_range_codes [OF c] by simp
    then show ?thesis by (simp add: good_def Before_def)
  qed
  show "Before (fst (window sy timeRange env w)) (snd (window sy timeRange env w))
      \<longleftrightarrow> \<not> ((timeRange = ''ty'' \<or> timeRange = ''typ'')
                  \<and> Month (clock sy (ticks w)) = 1 \<and> Day (clock sy (ticks w)) = 1)"
    using good_range_codes [OF c, of sy env w] ty_typ_strict [of sy env w]
    by (auto simp: good_def)
next
  assume "env ''DATE_FROM'' = Some dtFrom" "env ''DATE_TO'' = Some dtTo"
    "first_parse formats dtFrom = Some pf" "first_parse formats dtTo = Some pt"
  then show "\<exists>needs err w'. needsCalculation sy table projectSlug ''c'' env w
            = ((needs, DayStart pf, DayStart pt, err), w')"
    by (rule needsCalculation_c_total)
next
  show "day_aligned (DayStart pf)" "day_aligned (DayStart pt)"
    by (rule day_aligned_DayStart)+
next
  show "Before (DayStart pf) (DayStart pt) \<longleftrightarrow> day_number pf < day_number pt"
    by (rule Before_DayStart)
next
  assume "needsCalculation sy table projectSlug ''c'' env w = ((needs, dtf, dtt, None), w')"
  then show "\<exists>dtFrom dtTo pf pt. env ''DATE_FROM'' = Some dtFrom \<and> env ''DATE_TO'' = Some dtTo
           \<and> first_parse formats dtFrom = Some pf \<and> first_parse formats dtTo = Some pt
           \<and> dtf = DayStart pf \<and> dtt = DayStart pt"
    by (rule needsCalculation_c_bounds)
qed

text \<open>
  C6 (counterexample).  With the code \<open>c\<close>, \<open>DATE_FROM=2023-11\<close> and \<open>DATE_TO=2023-10\<close>
  the bounds are the first of November and the first of October 2023: \<open>date_from\<close> is
  after \<open>date_to\<close>.  With the codes \<open>ty\<close> and \<open>typ\<close> on the first of January 2024 both
  bounds are that day.
\<close>

theorem window_counterexample:
  "fst (needsCalculation (fresh_sys (Date 2026 11 3 15 0 0 0 UTC) [] 1) ''t'' ''envoy'' ''c''
          [''DATE_FROM'' \<mapsto> ''2023-11'', ''DATE_TO'' \<mapsto> ''2023-10''] world0)
     = (True, Date 2023 11 1 0 0 0 0 UTC, Date 2023 10 1 0 0 0 0 UTC, None)
   \<and> \<not> Before (Date 2023 11 1 0 0 0 0 UTC) (Date 2023 10 1 0 0 0 0 UTC)
   \<and> window (fresh_sys (Date 2024 1 1 9 30 0 0 UTC) [] 1) ''ty'' Map.empty world0
     = (Date 2024 1 1 0 0 0 0 UTC, Date 2024 1 1 0 0 0 0 UTC)
   \<and> window (fresh_sys (Date 2024 1 1 9 30 0 0 UTC) [] 1) ''typ'' Map.empty world0
     = (Date 2024 1 1 0 0 0 0 UTC, Date 2024 1 1 0 0 0 0 UTC)
   \<and> \<not> Before (Date 2024 1 1 0 0 0 0 UTC) (Date 2024 1 1 0 0 0 0 UTC)"
  by code_simp

lemma parse_2023_10: "first_parse formats ''2023-10'' = Some (Date 2023 10 1 0 0 0 0 UTC)"
  by code_simp

lemma parse_2023_11: "first_parse formats ''2023-11'' = Some (Date 2023 11 1 0 0 0 0 UTC)"
  by code_simp

lemma day_numbers_2023: "day_number (Date 2023 10 1 0 0 0 0 UTC) < day_number (Date 2023 11 1 0 0 0 0 UTC)"
  by code_simp

lemma Before_2023: "Before (Date 2023 10 1 0 0 0 0 UTC) (Date 2023 11 1 0 0 0 0 UTC)"
  by code_simp

lemma clock_2026: "Month (Date 2026 11 3 15 0 0 0 UTC) = 11"
  by code_simp

lemma clock_2024: "Month (Date 2024 1 1 9 30 0 0 UTC) = 1 \<and> Day (Date 2024 1 1 9 30 0 0 UTC) = 1"
  by code_simp

theorem window_aligned_ordered_witness:
  "''7d'' \<in> set range_codes
   \<and> day_aligned (fst (window (fresh_sys (Date 2026 11 3 15 0 0 0 UTC) [] 1) ''7d''
        [''DATE_FROM'' \<mapsto> ''2023-10'', ''DATE_TO'' \<mapsto> ''2023-11''] world0))
   \<and> Before (fst (window (fresh_sys (Date 2026 11 3 15 0 0 0 UTC) [] 1) ''7d''
        [''DATE_FROM'' \<mapsto> ''2023-10'', ''DATE_TO'' \<mapsto> ''2023-11''] world0))
        (snd (window (fresh_sys (Date 2026 11 3 15 0 0 0 UTC) [] 1) ''7d''
        [''DATE_FROM'' \<mapsto> ''2023-10'', ''DATE_TO'' \<mapsto> ''2023-11''] world0))
   \<and> ''typ'' \<in> set range_codes
   \<and> \<not> Before (fst (window (fresh_sys (Date 2024 1 1 9 30 0 0 UTC) [] 1) ''typ'' Map.empty world0))
        (snd (window (fresh_sys (Date 2024 1 1 9 30 0 0 UTC) [] 1) ''typ'' Map.empty world0))
   \<and> [''DATE_FROM'' \<mapsto> ''2023-10'', ''DATE_TO'' \<mapsto> ''2023-11''] ''DATE_FROM'' = Some ''2023-10''
   \<and> [''DATE_FROM'' \<mapsto> ''2023-10'', ''DATE_TO'' \<mapsto> ''2023-11''] ''DATE_TO'' = Some ''2023-11''
   \<and> first_parse formats ''2023-10'' = Some (Date 2023 10 1 0 0 0 0 UTC)
   \<and> first_parse formats ''2023-11'' = Some (Date 2023 11 1 0 0 0 0 UTC)
   \<and> needsCalculation (fresh_sys (Date 2026 11 3 15 0 0 0 UTC) [] 1) ''t'' ''envoy'' ''c''
        [''DATE_FROM'' \<mapsto> ''2023-10'', ''DATE_TO'' \<mapsto> ''2023-11''] world0
       = ((True, Date 2023 10 1 0 0 0 0 UTC, Date 2023 11 1 0 0 0 0 UTC, None),
          world0\<lparr>sent := [Query (isCalculated_sql ''t'')
             [AStr ''envoy'', AStr ''c'', ATime (Date 2023 10 1 0 0 0 0 UTC),
              ATime (Date 2023 11 1 0 0 0 0 UTC)]]\<rparr>)
   \<and> Before (DayStart (Date 2023 10 1 0 0 0 0 UTC)) (DayStart (Date 2023 11 1 0 0 0 0 UTC))"
proof -
  let ?sy = "fresh_sys (Date 2026 11 3 15 0 0 0 UTC) [] 1"
  let ?jan = "fresh_sys (Date 2024 1 1 9 30 0 0 UTC) [] 1"
  let ?env = "[''DATE_FROM'' \<mapsto> ''2023-10'', ''DATE_TO'' \<mapsto> ''2023-11'']"
  let ?w' = "world0\<lparr>sent := [Query (isCalculated_sql ''t'')
             [AStr ''envoy'', AStr ''c'', ATime (Date 2023 10 1 0 0 0 0 UTC),
              ATime (Date 2023 11 1 0 0 0 0 UTC)]]\<rparr>"
  have c: "''7d'' \<in> set range_codes" "''typ'' \<in> set range_codes"
    by (simp_all add: range_codes_def)
  have n: "needsCalculation ?sy ''t'' ''envoy'' ''c'' ?env world0
       = ((True, Date 2023 10 1 0 0 0 0 UTC, Date 2023 11 1 0 0 0 0 UTC, None), ?w')"
    by code_simp
  have k: "clock ?sy (ticks world0) = Date 2026 11 3 15 0 0 0 UTC"
    "clock ?jan (ticks world0) = Date 2024 1 1 9 30 0 0 UTC"
    by (simp_all add: fresh_sys_def)
  show ?thesis
    using window_aligned_ordered [where timeRange = "''7d''" and sy = ?sy and env = ?env
        and w = world0 and table = "''t''" and projectSlug = "''envoy''" and needs = True
        and dtf = "Date 2023 10 1 0 0 0 0 UTC" and dtt = "Date 2023 11 1 0 0 0 0 UTC"
        and w' = ?w' and dtFrom = "''2023-10''" and dtTo = "''2023-11''"
        and pf = "Date 2023 10 1 0 0 0 0 UTC" and pt = "Date 2023 11 1 0 0 0 0 UTC"]
      window_aligned_ordered [where timeRange = "''typ''" and sy = ?jan and env = Map.empty
        and w = world0]
      c n
    by (simp add: k parse_2023_10 parse_2023_11 day_numbers_2023 clock_2026 clock_2024 Before_2023)
qed

lemma exact_days:
  assumes "day_aligned dtt"
  shows "unix_ns (AddDate (AddDate dtt 0 0 (- k)) 0 0 (- k))
       = unix_ns (AddDate dtt 0 0 (- k)) - (unix_ns dtt - unix_ns (AddDate dtt 0 0 (- k)))"
  by (simp add: AddDate_days assms day_aligned_AddDate)

lemma prev_7d: "prev_ok sy env w ''7d''"
  unfolding prev_ok_def window_def currentTimeRange_def Now_def Let_def
  by (cases "env ''CALC_WEEK_DAILY''") (simp_all add: shift_back_def exact_days aligned_intros)

lemma prev_30d: "prev_ok sy env w ''30d''"
  unfolding prev_ok_def window_def currentTimeRange_def Now_def Let_def
  by (cases "env ''CALC_MONTH_DAILY''") (simp_all add: shift_back_def exact_days aligned_intros)

lemma prev_q: "prev_ok sy env w ''q''"
  unfolding prev_ok_def window_def currentTimeRange_def Now_def Let_def
  by (cases "env ''CALC_QUARTER_DAILY''") (simp_all add: shift_back_def)

lemma prev_y: "prev_ok sy env w ''y''"
  unfolding prev_ok_def window_def currentTimeRange_def Now_def Let_def
  by (cases "env ''CALC_YEAR_DAILY''") (simp_all add: shift_back_def)

lemma prev_2y: "prev_ok sy env w ''2y''"
  unfolding prev_ok_def window_def currentTimeRange_def Now_def Let_def
  by (cases "env ''CALC_YEAR2_DAILY''"; cases "Year (clock sy (ticks w)) mod 2 = 1")
     (simp_all add: shift_back_def)

lemma same_zone_update:
  fixes a b :: gotime
  shows "zone a = zone b \<Longrightarrow> a\<lparr>unix_ns := unix_ns b\<rparr> = b"
  by (cases a; cases b) simp

lemma zone_DayStart: "zone (DayStart t) = UTC"
  by (simp add: DayStart_def zone_Date)

lemma zone_YearStart: "zone (YearStart t) = UTC"
  by (simp add: YearStart_def zone_Date)

lemma prev_ty: "prev_ok sy env w ''ty''"
  unfolding prev_ok_def Let_def
  by (simp add: window_ty window_typ Add_def same_zone_update zone_DayStart zone_YearStart)

lemma prev_ok_codes:
  assumes "code \<in> set [''7d'', ''30d'', ''q'', ''ty'', ''y'', ''2y'']"
  shows "prev_ok sy env w code"
proof -
  have "code \<in> {''7d'', ''30d'', ''q'', ''ty'', ''y'', ''2y''}"
    using assms by simp
  then show ?thesis
    by (elim insertE emptyE) (simp_all only: prev_7d prev_30d prev_q prev_ty prev_y prev_2y)
qed

text \<open>
  C7 (amended).  For each code \<open>7d\<close>, \<open>30d\<close>, \<open>q\<close>, \<open>ty\<close>, \<open>y\<close>, \<open>2y\<close>, at every time of
  the clock and under every configuration, the window of the code with the suffix \<open>p\<close>
  ends exactly where the window of the code begins, so the two do not overlap, and it
  begins one calendar step earlier than the window of the code: 7 days, 30 days or one
  month, three months, one year, two years, and for \<open>typ\<close> the elapsed time of the
  window.  That step is exactly the length of the window for \<open>7dp\<close>, for \<open>30dp\<close> in the
  daily mode and for \<open>typ\<close>.
\<close>

theorem previous_window:
  assumes "code \<in> set [''7d'', ''30d'', ''q'', ''ty'', ''y'', ''2y'']"
  shows
    "(let wb = window sy code env w; wp = window sy (code @ ''p'') env w
      in snd wp = fst wb
       \<and> fst wp =
           (if code = ''7d'' then AddDate (fst wb) 0 0 (- 7)
            else if code = ''30d'' then
              (if env ''CALC_MONTH_DAILY'' \<noteq> None then AddDate (fst wb) 0 0 (- 30)
               else AddDate (fst wb) 0 (- 1) 0)
            else if code = ''q'' then AddDate (fst wb) 0 (- 3) 0
            else if code = ''y'' then AddDate (fst wb) (- 1) 0 0
            else if code = ''2y'' then AddDate (fst wb) (- 2) 0 0
            else Add (fst wb) (- (unix_ns (snd wb) - unix_ns (fst wb))))
       \<and> (code = ''7d'' \<or> code = ''ty'' \<or> (code = ''30d'' \<and> env ''CALC_MONTH_DAILY'' \<noteq> None)
            \<longrightarrow> unix_ns (fst wp) = unix_ns (fst wb) - (unix_ns (snd wb) - unix_ns (fst wb))))"
  using prev_ok_codes [OF assms, of sy env w] unfolding prev_ok_def .

lemma DayStart_2025_03_01:
  "DayStart (Date 2025 3 1 12 0 0 0 UTC) = Date 2025 3 1 0 0 0 0 UTC"
  by code_simp

lemma year_before_2025_03_01:
  "AddDate (Date 2025 3 1 0 0 0 0 UTC) (- 1) 0 0 = Date 2024 3 1 0 0 0 0 UTC"
  by code_simp

lemma year_before_2024_03_01:
  "AddDate (Date 2024 3 1 0 0 0 0 UTC) (- 1) 0 0 = Date 2023 3 1 0 0 0 0 UTC"
  by code_simp

lemma days_2024_2025:
  "unix_ns (Date 2025 3 1 0 0 0 0 UTC) - unix_ns (Date 2024 3 1 0 0 0 0 UTC)
     = 365 * 86400000000000
   \<and> unix_ns (Date 2024 3 1 0 0 0 0 UTC) - unix_ns (Date 2023 3 1 0 0 0 0 UTC)
     = 366 * 86400000000000"
  by code_simp

text \<open>
  C7 (counterexample).  On the first of March 2025, in the daily mode, the window of
  \<open>y\<close> is 2024-03-01 to 2025-03-01, which is 365 days, and the window of \<open>yp\<close> is
  2023-03-01 to 2024-03-01, which is 366 days: the window of \<open>yp\<close> is not the window of
  \<open>y\<close> moved by its own length.
\<close>

theorem previous_window_counterexample:
  "window (fresh_sys (Date 2025 3 1 12 0 0 0 UTC) [] 1) ''y'' [''CALC_YEAR_DAILY'' \<mapsto> ''y''] world0
     = (Date 2024 3 1 0 0 0 0 UTC, Date 2025 3 1 0 0 0 0 UTC)
   \<and> window (fresh_sys (Date 2025 3 1 12 0 0 0 UTC) [] 1) ''yp'' [''CALC_YEAR_DAILY'' \<mapsto> ''y''] world0
     = (Date 2023 3 1 0 0 0 0 UTC, Date 2024 3 1 0 0 0 0 UTC)
   \<and> unix_ns (Date 2025 3 1 0 0 0 0 UTC) - unix_ns (Date 2024 3 1 0 0 0 0 UTC)
     = 365 * 86400000000000
   \<and> unix_ns (Date 2024 3 1 0 0 0 0 UTC) - unix_ns (Date 2023 3 1 0 0 0 0 UTC)
     = 366 * 86400000000000"
  using days_2024_2025
  by (simp add: window_def currentTimeRange_def Now_def fresh_sys_def world0_def shift_back_def
      DayStart_2025_03_01 year_before_2025_03_01 year_before_2024_03_01)

theorem previous_window_witness:
  "''7d'' \<in> set [''7d'', ''30d'', ''q'', ''ty'', ''y'', ''2y'']
   \<and> snd (window (fresh_sys (Date 2025 3 1 12 0 0 0 UTC) [] 1) ''7dp'' Map.empty world0)
     = fst (window (fresh_sys (Date 2025 3 1 12 0 0 0 UTC) [] 1) ''7d'' Map.empty world0)"
  using previous_window [of "''7d''" "fresh_sys (Date 2025 3 1 12 0 0 0 UTC) [] 1" Map.empty world0]
  by (simp add: Let_def)

lemma DayStart_aligned:
  assumes "day_aligned t"
  shows "DayStart t = t"
proof -
  have "unix_ns (DayStart t) = unix_ns t"
    by (simp add: DayStart_def unix_ns_Date_midnight civil_roundtrip day_aligned_unix [OF assms])
  moreover have "zone (DayStart t) = zone t"
    using assms by (simp add: DayStart_def zone_Date day_aligned_def)
  ultimately show ?thesis by (simp add: gotime.equality)
qed

section \<open>Claims about the schema inferencer\<close>

text \<open>
  C2 (counterexample).  The driver reports the SQL type \<open>integer\<close> as \<open>INT4\<close> and the
  single-precision \<open>real\<close> as \<open>FLOAT4\<close>; neither is in the table of \<open>dbTypeName\<close>, so
  both are errors and not \<open>bigint\<close> and \<open>numeric\<close>.  With the guess-type override a name
  that is not in the table comes back in lower case, not verbatim.
\<close>

theorem dbTypeName_counterexample:
  "dbTypeName \<lparr>col_name = ''cnt'', col_dbtype = ''INT4'', col_nullable = None\<rparr> Map.empty
     = Inl (UnknownType ''int4'')
   \<and> dbTypeName \<lparr>col_name = ''ratio'', col_dbtype = ''FLOAT4'', col_nullable = None\<rparr> Map.empty
     = Inl (UnknownType ''float4'')
   \<and> dbTypeName \<lparr>col_name = ''doc'', col_dbtype = ''JSONB'', col_nullable = None\<rparr>
        [''GUESS_TYPE'' \<mapsto> ''y''] = Inr ''jsonb''"
  by (simp add: dbTypeName_def str_eval)

text \<open>
  C2 (amended).  \<open>dbTypeName\<close> decides on the lower-cased type name \<open>n\<close>:
  \<open>text\<close>, \<open>bool\<close>, \<open>date\<close>, \<open>interval\<close> and \<open>numeric\<close> give \<open>n\<close> itself;
  \<open>varchar\<close> gives \<open>text\<close>; \<open>timestamptz\<close> gives \<open>timestamp\<close>; \<open>int8\<close>, \<open>int16\<close>,
  \<open>int32\<close> and \<open>int64\<close> give \<open>bigint\<close>; \<open>float8\<close> gives \<open>numeric\<close>; every other name is
  the error \<open>UnknownType n\<close> when \<open>GUESS_TYPE\<close> is not set and \<open>n\<close> (lower-cased) when it
  is.  Without the override every result is one of seven canonical types.
\<close>

theorem dbTypeName_mapping:
  "(ToLower (col_dbtype c) \<in> {''text'', ''bool'', ''date'', ''interval'', ''numeric''}
      \<longrightarrow> dbTypeName c env = Inr (ToLower (col_dbtype c)))
   \<and> (ToLower (col_dbtype c) = ''varchar'' \<longrightarrow> dbTypeName c env = Inr ''text'')
   \<and> (ToLower (col_dbtype c) = ''timestamptz'' \<longrightarrow> dbTypeName c env = Inr ''timestamp'')
   \<and> (ToLower (col_dbtype c) \<in> {''int8'', ''int16'', ''int32'', ''int64''}
      \<longrightarrow> dbTypeName c env = Inr ''bigint'')
   \<and> (ToLower (col_dbtype c) = ''float8'' \<longrightarrow> dbTypeName c env = Inr ''numeric'')
   \<and> (ToLower (col_dbtype c) \<notin> {''text'', ''bool'', ''date'', ''interval'', ''numeric'',
          ''varchar'', ''timestamptz'', ''int8'', ''int16'', ''int32'', ''int64'', ''float8''}
      \<longrightarrow> dbTypeName c env =
            (if env ''GUESS_TYPE'' = None then Inl (UnknownType (ToLower (col_dbtype c)))
             else Inr (ToLower (col_dbtype c))))
   \<and> (env ''GUESS_TYPE'' = None \<longrightarrow> dbTypeName c env = Inr t
      \<longrightarrow> t \<in> {''text'', ''bool'', ''date'', ''interval'', ''numeric'', ''timestamp'', ''bigint''})"
  unfolding dbTypeName_def Let_def
  by (auto split: if_splits)

theorem dbTypeName_mapping_witness:
  "ToLower ''INT8'' \<in> {''int8'', ''int16'', ''int32'', ''int64''}
   \<and> dbTypeName \<lparr>col_name = ''cnt'', col_dbtype = ''INT8'', col_nullable = None\<rparr> Map.empty
       = Inr ''bigint''
   \<and> ToLower ''TEXT'' \<in> {''text'', ''bool'', ''date'', ''interval'', ''numeric''}
   \<and> dbTypeName \<lparr>col_name = ''label'', col_dbtype = ''TEXT'', col_nullable = None\<rparr> Map.empty
       = Inr ''text''"
  using dbTypeName_mapping [of "\<lparr>col_name = ''cnt'', col_dbtype = ''INT8'', col_nullable = None\<rparr>"
          Map.empty]
        dbTypeName_mapping [of "\<lparr>col_name = ''label'', col_dbtype = ''TEXT'', col_nullable = None\<rparr>"
          Map.empty]
  by (simp add: str_eval)

section \<open>Claims about the Delete operation\<close>

text \<open>
  C1 (the code at the failing input).  With \<open>DELETE=x\<close> the entry \<open>x\<close> names none of
  the four predicates; \<open>delMap\<close> is not empty, so the guard against an unconditioned
  delete does not fire, no condition is collected, and the statement sent is
  \<open>delete from "table"\<close> with no where-clause and no parameter.
\<close>

theorem supportDelete_unconditioned:
  \<open>sent (snd (supportDelete sy table timeRange projectSlug dtf dtt [''DELETE'' \<mapsto> ''x''] w))
     = sent w @ [Exec (''delete from "'' @ table @ ''"'') []]\<close>
  by (simp add: supportDelete_def add_cond_def Exec_db_def Let_def split: sum.splits)

section \<open>Claims about the create-table statement\<close>

lemma columns_loop_text:
  assumes "columns_loop env l i cols names seen acc = Inr (names', ddl)"
    and "l = i + int (length cols) - 1" and "cols \<noteq> []"
  shows "ddl = acc @ Join (map (column_line env) cols) ('','' @ nl) @ primary_key_tail
       \<and> names' = names @ map col_name cols"
  using assms
proof (induction cols arbitrary: i names seen acc)
  case Nil
  then show ?case by simp
next
  case (Cons c cs)
  obtain tp where tp: "dbTypeName c env = Inr tp"
    using Cons.prems(1) by (cases "dbTypeName c env") auto
  have fresh: "col_name c \<notin> seen"
    using Cons.prems(1) tp by (auto simp: Let_def split: if_splits)
  show ?case
  proof (cases cs)
    case Nil
    then show ?thesis
      using Cons.prems tp fresh by (auto simp: Let_def column_line_def)
  next
    case (Cons d ds)
    have lt: "i < l" using Cons.prems(2) Cons by simp
    have step: "columns_loop env l (i + 1) cs (names @ [col_name c]) (insert (col_name c) seen)
        (acc @ column_line env c @ '','' @ nl) = Inr (names', ddl)"
      using Cons.prems(1) tp fresh lt
      by (cases "col_nullable c = Some False") (simp_all add: Let_def column_line_def)
    have "ddl = (acc @ column_line env c @ '','' @ nl) @ Join (map (column_line env) cs) ('','' @ nl)
              @ primary_key_tail
        \<and> names' = (names @ [col_name c]) @ map col_name cs"
      by (rule Cons.IH [OF step]) (use Cons.prems(2) Cons in simp_all)
    then show ?thesis using Cons by simp
  qed
qed

lemma columns_loop_ok:
  assumes "\<forall>c \<in> set cols. \<exists>tp. dbTypeName c env = Inr tp"
    and "distinct (map col_name cols)" and "\<forall>c \<in> set cols. col_name c \<notin> seen"
  shows "\<exists>ddl. columns_loop env l i cols names seen acc = Inr (names @ map col_name cols, ddl)"
  using assms
proof (induction cols arbitrary: i names seen acc)
  case Nil
  then show ?case by simp
next
  case (Cons c cs)
  obtain tp where tp: "dbTypeName c env = Inr tp" using Cons.prems(1) by auto
  have fresh: "col_name c \<notin> seen" using Cons.prems(3) by simp
  have "\<forall>d \<in> set cs. col_name d \<notin> insert (col_name c) seen"
    using Cons.prems(2,3) by (auto simp: image_iff)
  then have "\<exists>ddl. columns_loop env l (i + 1) cs (names @ [col_name c]) (insert (col_name c) seen)
      acc' = Inr ((names @ [col_name c]) @ map col_name cs, ddl)" for acc'
    using Cons.prems(1,2) by (intro Cons.IH) auto
  then have ih: "\<exists>ddl. columns_loop env l (i + 1) cs (names @ [col_name c]) (insert (col_name c) seen)
      acc' = Inr (names @ col_name c # map col_name cs, ddl)" for acc'
    by simp
  show ?case using tp fresh by (simp add: Let_def ih)
qed

lemma createTable_sql_text:
  "createTable_sql env table ppt [] =
      Inr ([], createTable_head table @ index_statements table ppt (indicesAry env))"
  "columns \<noteq> [] \<Longrightarrow> createTable_sql env table ppt columns = Inr (colNames, ddl) \<Longrightarrow>
        ddl = createTable_head table @ Join (map (column_line env) columns) ('','' @ nl)
                @ primary_key_tail @ index_statements table ppt (indicesAry env)
        \<and> colNames = map col_name columns"
proof -
  show "createTable_sql env table ppt [] =
      Inr ([], createTable_head table @ index_statements table ppt (indicesAry env))"
    by (simp add: createTable_sql_def)
next
  assume ne: "columns \<noteq> []"
    and r: "createTable_sql env table ppt columns = Inr (colNames, ddl)"
  obtain ddl0 where l: "columns_loop env (int (length columns) - 1) 0 columns [] {}
      (createTable_head table) = Inr (colNames, ddl0)"
    and d: "ddl = ddl0 @ index_statements table ppt (indicesAry env)"
    using r by (auto simp: createTable_sql_def Let_def split: sum.splits)
  have "ddl0 = createTable_head table @ Join (map (column_line env) columns) ('','' @ nl)
           @ primary_key_tail \<and> colNames = [] @ map col_name columns"
    by (rule columns_loop_text [OF l]) (use ne in simp_all)
  then show "ddl = createTable_head table @ Join (map (column_line env) columns) ('','' @ nl)
                @ primary_key_tail @ index_statements table ppt (indicesAry env)
        \<and> colNames = map col_name columns"
    using d by simp
qed

lemma createTable_sql_total:
  assumes "\<forall>c \<in> set columns. \<exists>tp. dbTypeName c env = Inr tp"
    and "distinct (map col_name columns)"
  shows "\<exists>ddl. createTable_sql env table ppt columns = Inr (map col_name columns, ddl)"
proof -
  from columns_loop_ok [OF assms, of "{}" "int (length columns) - 1" 0 "[]" "createTable_head table"]
  obtain ddl where "columns_loop env (int (length columns) - 1) 0 columns [] {}
      (createTable_head table) = Inr (map col_name columns, ddl)"
    by auto
  then show ?thesis by (simp add: createTable_sql_def)
qed

text \<open>
  C10.  The create-table text for a result set of known types and distinct names always
  comes out.  For a result set without columns it is the opening of the statement, up to
  the line of \<open>row_number\<close> with its comma, directly followed by the index statements:
  the primary-key clause and the closing \<open>);\<close> are not written, and the statement is left
  open.  For a result set with at least one column it is that opening, the lines of the
  columns separated by a comma and a newline, then a comma, the primary-key clause and the
  closing \<open>);\<close> (written in the last round of the loop over the columns), then the
  index statements.
\<close>

theorem createTable_sql_primary_key:
  fixes env :: env and table :: string and ppt :: bool and columns :: "column list"
    and colNames :: "string list" and ddl :: string
  defines \<open>opening \<equiv>
       ''create table if not exists "'' @ table @ ''"('' @ [CHR 0x0A] @
       ''  time_range varchar(6) not null,'' @ [CHR 0x0A] @
       ''  project_slug text not null,'' @ [CHR 0x0A] @
       ''  last_calculated_at timestamp not null,'' @ [CHR 0x0A] @
       ''  date_from date not null,'' @ [CHR 0x0A] @
       ''  date_to date not null,'' @ [CHR 0x0A] @
       ''  row_number int not null,'' @ [CHR 0x0A]\<close>
    and \<open>closing \<equiv>
       '','' @ [CHR 0x0A] @
       ''  primary key(time_range, project_slug, date_from, date_to, row_number)'' @ [CHR 0x0A] @
       '');'' @ [CHR 0x0A]\<close>
    and \<open>indexes \<equiv>
       ''create index if not exists "'' @ table @ ''_time_range_idx" on "'' @ table @
         ''"(time_range);'' @ [CHR 0x0A] @
       (if ppt then []
        else ''create index if not exists "'' @ table @ ''_project_slug_idx" on "'' @ table @
               ''"(project_slug);'' @ [CHR 0x0A]) @
       concat (map (\<lambda>index.
         ''create index if not exists "'' @ table @ ''_'' @ index @ ''_idx" on "'' @ table @
           ''"('' @ index @ '');'' @ [CHR 0x0A]) (indicesAry env))\<close>
  shows "((\<forall>c \<in> set columns. \<exists>tp. dbTypeName c env = Inr tp) \<and> distinct (map col_name columns)
            \<longrightarrow> (\<exists>text. createTable_sql env table ppt columns = Inr (map col_name columns, text)))
   \<and> createTable_sql env table ppt [] = Inr ([], opening @ indexes)
   \<and> (columns \<noteq> [] \<longrightarrow> createTable_sql env table ppt columns = Inr (colNames, ddl) \<longrightarrow>
        ddl = opening @ Join (map (column_line env) columns) ('','' @ [CHR 0x0A])
                @ closing @ indexes
        \<and> colNames = map col_name columns)"
proof -
  have o: "opening = createTable_head table"
    by (simp add: opening_def createTable_head_def nl_def)
  have c: "closing = primary_key_tail"
    by (simp add: closing_def primary_key_tail_def nl_def)
  have i: "indexes = index_statements table ppt (indicesAry env)"
    by (simp add: indexes_def index_statements_def nl_def)
  show ?thesis
    unfolding o c i
    using createTable_sql_text(1) [of env table ppt]
      createTable_sql_text(2) [where columns = columns and env = env and table = table
        and ppt = ppt and colNames = colNames and ddl = ddl]
      createTable_sql_total [where columns = columns and env = env and table = table and ppt = ppt]
    by (auto simp: nl_def)
qed

lemma createTable_example:
  \<open>createTable_sql Map.empty ''t'' False
     [\<lparr>col_name = ''cnt'', col_dbtype = ''INT8'', col_nullable = Some False\<rparr>,
      \<lparr>col_name = ''label'', col_dbtype = ''TEXT'', col_nullable = None\<rparr>]
   = Inr ([''cnt'', ''label''],
       ''create table if not exists "t"('' @ [CHR 0x0A] @
       ''  time_range varchar(6) not null,'' @ [CHR 0x0A] @
       ''  project_slug text not null,'' @ [CHR 0x0A] @
       ''  last_calculated_at timestamp not null,'' @ [CHR 0x0A] @
       ''  date_from date not null,'' @ [CHR 0x0A] @
       ''  date_to date not null,'' @ [CHR 0x0A] @
       ''  row_number int not null,'' @ [CHR 0x0A] @
       ''  cnt bigint not null,'' @ [CHR 0x0A] @
       ''  label text,'' @ [CHR 0x0A] @
       ''  primary key(time_range, project_slug, date_from, date_to, row_number)'' @ [CHR 0x0A] @
       '');'' @ [CHR 0x0A] @
       ''create index if not exists "t_time_range_idx" on "t"(time_range);'' @ [CHR 0x0A] @
       ''create index if not exists "t_project_slug_idx" on "t"(project_slug);'' @ [CHR 0x0A])\<close>
  by code_simp

theorem createTable_sql_primary_key_witness:
  \<open>dbTypeName \<lparr>col_name = ''cnt'', col_dbtype = ''INT8'', col_nullable = Some False\<rparr> Map.empty
     = Inr ''bigint''
   \<and> dbTypeName \<lparr>col_name = ''label'', col_dbtype = ''TEXT'', col_nullable = None\<rparr> Map.empty
     = Inr ''text''
   \<and> distinct (map col_name [\<lparr>col_name = ''cnt'', col_dbtype = ''INT8'', col_nullable = Some False\<rparr>,
                 \<lparr>col_name = ''label'', col_dbtype = ''TEXT'', col_nullable = None\<rparr>])
   \<and> [\<lparr>col_name = ''cnt'', col_dbtype = ''INT8'', col_nullable = Some False\<rparr>,
      \<lparr>col_name = ''label'', col_dbtype = ''TEXT'', col_nullable = None\<rparr>] \<noteq> []
   \<and> createTable_sql Map.empty ''t'' False
       [\<lparr>col_name = ''cnt'', col_dbtype = ''INT8'', col_nullable = Some False\<rparr>,
        \<lparr>col_name = ''label'', col_dbtype = ''TEXT'', col_nullable = None\<rparr>]
     = Inr ([''cnt'', ''label''],
       ''create table if not exists "t"('' @ [CHR 0x0A] @
       ''  time_range varchar(6) not null,'' @ [CHR 0x0A] @
       ''  project_slug text not null,'' @ [CHR 0x0A] @
       ''  last_calculated_at timestamp not null,'' @ [CHR 0x0A] @
       ''  date_from date not null,'' @ [CHR 0x0A] @
       ''  date_to date not null,'' @ [CHR 0x0A] @
       ''  row_number int not null,'' @ [CHR 0x0A] @
       ''  cnt bigint not null,'' @ [CHR 0x0A] @
       ''  label text,'' @ [CHR 0x0A] @
       ''  primary key(time_range, project_slug, date_from, date_to, row_number)'' @ [CHR 0x0A] @
       '');'' @ [CHR 0x0A] @
       ''create index if not exists "t_time_range_idx" on "t"(time_range);'' @ [CHR 0x0A] @
       ''create index if not exists "t_project_slug_idx" on "t"(project_slug);'' @ [CHR 0x0A])
   \<and> createTable_sql Map.empty ''t'' False []
     = Inr ([],
       ''create table if not exists "t"('' @ [CHR 0x0A] @
       ''  time_range varchar(6) not null,'' @ [CHR 0x0A] @
       ''  project_slug text not null,'' @ [CHR 0x0A] @
       ''  last_calculated_at timestamp not null,'' @ [CHR 0x0A] @
       ''  date_from date not null,'' @ [CHR 0x0A] @
       ''  date_to date not null,'' @ [CHR 0x0A] @
       ''  row_number int not null,'' @ [CHR 0x0A] @
       ''create index if not exists "t_time_range_idx" on "t"(time_range);'' @ [CHR 0x0A] @
       ''create index if not exists "t_project_slug_idx" on "t"(project_slug);'' @ [CHR 0x0A])\<close>
proof -
  have t: \<open>dbTypeName \<lparr>col_name = ''cnt'', col_dbtype = ''INT8'', col_nullable = Some False\<rparr> Map.empty
        = Inr ''bigint''\<close>
    \<open>dbTypeName \<lparr>col_name = ''label'', col_dbtype = ''TEXT'', col_nullable = None\<rparr> Map.empty
        = Inr ''text''\<close>
    by code_simp+
  have i: "indicesAry Map.empty = []"
    by (simp add: indicesAry_def)
  let ?ddl = \<open>''create table if not exists "t"('' @ [CHR 0x0A] @
       ''  time_range varchar(6) not null,'' @ [CHR 0x0A] @
       ''  project_slug text not null,'' @ [CHR 0x0A] @
       ''  last_calculated_at timestamp not null,'' @ [CHR 0x0A] @
       ''  date_from date not null,'' @ [CHR 0x0A] @
       ''  date_to date not null,'' @ [CHR 0x0A] @
       ''  row_number int not null,'' @ [CHR 0x0A] @
       ''  cnt bigint not null,'' @ [CHR 0x0A] @
       ''  label text,'' @ [CHR 0x0A] @
       ''  primary key(time_range, project_slug, date_from, date_to, row_number)'' @ [CHR 0x0A] @
       '');'' @ [CHR 0x0A] @
       ''create index if not exists "t_time_range_idx" on "t"(time_range);'' @ [CHR 0x0A] @
       ''create index if not exists "t_project_slug_idx" on "t"(project_slug);'' @ [CHR 0x0A]\<close>
  show ?thesis
    using createTable_example
      createTable_sql_primary_key [where columns =
        "[\<lparr>col_name = ''cnt'', col_dbtype = ''INT8'', col_nullable = Some False\<rparr>,
          \<lparr>col_name = ''label'', col_dbtype = ''TEXT'', col_nullable = None\<rparr>]"
        and env = Map.empty and table = "''t''" and ppt = False
        and colNames = "[''cnt'', ''label'']" and ddl = ?ddl]
    by (simp add: t i)
qed

lemma columns_loop_duplicate:
  assumes "\<not> distinct (map col_name cols) \<or> (\<exists>c \<in> set cols. col_name c \<in> seen)"
  shows "\<exists>err. columns_loop env l i cols names seen acc = Inl err
           \<and> ((\<exists>n. err = NonUniqueColumn n) \<or> (\<exists>t. err = UnknownType t))"
  using assms
proof (induction cols arbitrary: i names seen acc)
  case Nil
  then show ?case by simp
next
  case (Cons c cs)
  show ?case
  proof (cases "dbTypeName c env")
    case (Inl e)
    then have "\<exists>t. e = UnknownType t"
      by (auto simp: dbTypeName_def Let_def split: if_splits)
    then show ?thesis using Inl by auto
  next
    case (Inr tp)
    show ?thesis
    proof (cases "col_name c \<in> seen")
      case True
      then show ?thesis using Inr by (simp add: Let_def)
    next
      case False
      have "\<not> distinct (map col_name cs) \<or> (\<exists>d \<in> set cs. col_name d \<in> insert (col_name c) seen)"
        using Cons.prems False by auto
      from Cons.IH [OF this] show ?thesis
        using Inr False by (simp add: Let_def)
    qed
  qed
qed

text \<open>
  C8.  When the source query succeeds and its column metadata holds the same name twice,
  \<open>calculate\<close> returns an error (the repeated name, or an unknown type met before it),
  and the only call it has sent to the database is the source query itself: no
  create-table or other statement is executed.
\<close>

theorem calculate_duplicate_columns:
  assumes "db_query sy (sent w) sqlQuery [] = Inr rows"
    and "rs_columns rows = Inr columns"
    and "\<not> distinct (map col_name columns)"
  shows "\<exists>err. calculate sy sqlQuery table projectSlug timeRange dtFrom dtTo ppt env w
           = (Some err, w\<lparr>sent := sent w @ [Query sqlQuery []]\<rparr>)
         \<and> ((\<exists>n. err = NonUniqueColumn n) \<or> (\<exists>t. err = UnknownType t))"
proof -
  obtain err where e: "columns_loop env (int (length columns) - 1) 0 columns [] {}
      (createTable_head table) = Inl err"
    and k: "(\<exists>n. err = NonUniqueColumn n) \<or> (\<exists>t. err = UnknownType t)"
    using columns_loop_duplicate [of columns "{}"] assms(3) by blast
  have "createTable_sql env table ppt columns = Inl err"
    by (simp add: createTable_sql_def e)
  then show ?thesis
    using assms(1,2) k by (simp add: calculate_def Query_db_def)
qed

theorem calculate_duplicate_columns_witness:
  "db_query ((fresh_sys (Date 2026 11 3 15 0 0 0 UTC) [] 1)
        \<lparr>db_query := (\<lambda>before q args.
           Inr \<lparr>rs_columns = Inr [\<lparr>col_name = ''cnt'', col_dbtype = ''INT8'', col_nullable = None\<rparr>,
                                  \<lparr>col_name = ''cnt'', col_dbtype = ''TEXT'', col_nullable = None\<rparr>],
                rs_rows = [Inr [''1'', ''a'']], rs_err = None\<rparr>)\<rparr>) (sent world0) ''select 1'' []
     = Inr \<lparr>rs_columns = Inr [\<lparr>col_name = ''cnt'', col_dbtype = ''INT8'', col_nullable = None\<rparr>,
                                  \<lparr>col_name = ''cnt'', col_dbtype = ''TEXT'', col_nullable = None\<rparr>],
                rs_rows = [Inr [''1'', ''a'']], rs_err = None\<rparr>
   \<and> \<not> distinct (map col_name [\<lparr>col_name = ''cnt'', col_dbtype = ''INT8'', col_nullable = None\<rparr>,
                                  \<lparr>col_name = ''cnt'', col_dbtype = ''TEXT'', col_nullable = None\<rparr>])
   \<and> (\<exists>err. calculate ((fresh_sys (Date 2026 11 3 15 0 0 0 UTC) [] 1)
        \<lparr>db_query := (\<lambda>before q args.
           Inr \<lparr>rs_columns = Inr [\<lparr>col_name = ''cnt'', col_dbtype = ''INT8'', col_nullable = None\<rparr>,
                                  \<lparr>col_name = ''cnt'', col_dbtype = ''TEXT'', col_nullable = None\<rparr>],
                rs_rows = [Inr [''1'', ''a'']], rs_err = None\<rparr>)\<rparr>)
          ''select 1'' ''t'' ''envoy'' ''a'' ''1970-01-01'' ''2100-01-01'' False Map.empty world0
        = (Some err, world0\<lparr>sent := sent world0 @ [Query ''select 1'' []]\<rparr>))"
proof -
  let ?cols = "[\<lparr>col_name = ''cnt'', col_dbtype = ''INT8'', col_nullable = None\<rparr>,
                \<lparr>col_name = ''cnt'', col_dbtype = ''TEXT'', col_nullable = None\<rparr>]"
  let ?rows = "\<lparr>rs_columns = Inr ?cols, rs_rows = [Inr [''1'', ''a'']], rs_err = None\<rparr>"
  let ?sy = "(fresh_sys (Date 2026 11 3 15 0 0 0 UTC) [] 1)\<lparr>db_query := (\<lambda>before q args. Inr ?rows)\<rparr>"
  have q: "db_query ?sy (sent world0) ''select 1'' [] = Inr ?rows" by simp
  have c: "rs_columns ?rows = Inr ?cols" by simp
  have d: "\<not> distinct (map col_name ?cols)" by simp
  show ?thesis
    using calculate_duplicate_columns [OF q c d, of "''t''" "''envoy''" "''a''" "''1970-01-01''"
        "''2100-01-01''" False Map.empty] q d
    by blast
qed

section \<open>Claims about the batches\<close>

lemma Scan_length: "Scan n r = Inr vals \<Longrightarrow> length vals = n"
  by (auto simp: Scan_def split: sum.splits if_splits)

lemma add_row_fields:
  assumes "length vals = c_nColumns c" "b_ep st = 0 \<or> b_ep st = int (c_nColumns c)"
  shows "b_ep (add_row c vals st) = int (c_nColumns c)"
    "b_p (add_row c vals st) = b_p st + 6 + int (c_nColumns c)"
    "length (b_args (add_row c vals st)) = length (b_args st) + 6 + c_nColumns c"
    "b_changes (add_row c vals st) = b_changes st"
  using assms by (auto simp: add_row_def Let_def)

lemma flush_sent:
  "flush sy c st w = (r, w') \<Longrightarrow>
     w' = w\<lparr>sent := sent w @ [Exec (b_query st @ on_conflict (c_l c) (c_colNames c)) (b_args st)]\<rparr>"
  by (auto simp: flush_def Exec_db_def split: sum.splits)

lemma rows_loop_bound:
  assumes "rows_loop sy c rs st w = (r, w')"
    and "batch_inv (c_nColumns c) st"
    and "6 + int (c_nColumns c) \<le> gMaxPlaceholders"
  shows "\<exists>new. sent w' = sent w @ new \<and> (\<forall>ev \<in> set new. int (params ev) \<le> gMaxPlaceholders)
           \<and> (case r of Inr st' \<Rightarrow> batch_inv (c_nColumns c) st' | Inl e \<Rightarrow> True)"
  using assms
proof (induction rs arbitrary: st w)
  case Nil
  then show ?case by auto
next
  case (Cons row rs)
  let ?n = "c_nColumns c"
  show ?case
  proof (cases "Scan ?n row")
    case (Inl e)
    then show ?thesis using Cons.prems by auto
  next
    case (Inr vals)
    have len: "length vals = ?n" using Inr by (rule Scan_length)
    have ep: "b_ep st = 0 \<or> b_ep st = int ?n" using Cons.prems(2) by (simp add: batch_inv_def)
    define st1 where "st1 = add_row c vals st"
    note f = add_row_fields [OF len ep, folded st1_def]
    have p1: "b_p st1 = int (length (b_args st1))"
      using Cons.prems(2) f by (simp add: batch_inv_def)
    have le: "b_p st1 \<le> gMaxPlaceholders"
    proof (cases "b_args st = []")
      case True
      then have "b_p st = 0" using Cons.prems(2) by (simp add: batch_inv_def)
      then show ?thesis using f Cons.prems(3) by simp
    next
      case False
      then show ?thesis using Cons.prems(2) f by (simp add: batch_inv_def)
    qed
    show ?thesis
    proof (cases "b_p st1 \<ge> gMaxPlaceholders - (6 + b_ep st1)")
      case True
      obtain fr w1 where fl: "flush sy c st1 w = (fr, w1)" by (cases "flush sy c st1 w")
      have s1: "sent w1 = sent w @ [Exec (b_query st1 @ on_conflict (c_l c) (c_colNames c)) (b_args st1)]"
        using flush_sent [OF fl] by simp
      show ?thesis
      proof (cases fr)
        case (Inl e)
        then have "r = Inl e" "w' = w1"
          using Cons.prems(1) Inr True fl by (simp_all add: st1_def [symmetric] Let_def)
        then show ?thesis using s1 le p1 by simp
      next
        case (Inr changes)
        define st2 where "st2 = st1\<lparr>b_changes := changes, b_query := [], b_args := [], b_p := 0,
                           b_batches := b_batches st1 + 1\<rparr>"
        have rec: "rows_loop sy c rs st2 w1 = (r, w')"
          using Cons.prems(1) \<open>Scan ?n row = Inr vals\<close> True fl Inr
          by (simp add: st1_def [symmetric] st2_def Let_def)
        have inv2: "batch_inv ?n st2"
          using f by (simp add: st2_def batch_inv_def)
        from Cons.IH [OF rec inv2 Cons.prems(3)] obtain new where
          "sent w' = sent w1 @ new" "\<forall>ev \<in> set new. int (params ev) \<le> gMaxPlaceholders"
          "case r of Inr st' \<Rightarrow> batch_inv ?n st' | Inl e \<Rightarrow> True"
          by blast
        then show ?thesis using s1 le p1 by auto
      qed
    next
      case False
      have rec: "rows_loop sy c rs st1 w = (r, w')"
        using Cons.prems(1) Inr False by (simp add: st1_def [symmetric] Let_def)
      have inv1: "batch_inv ?n st1"
        using f p1 False by (simp add: batch_inv_def)
      from Cons.IH [OF rec inv1 Cons.prems(3)] show ?thesis .
    qed
  qed
qed

lemma upsert_bound:
  assumes "upsert sy c rows w = (r, w')" and "6 + int (c_nColumns c) \<le> gMaxPlaceholders"
  shows "\<exists>new. sent w' = sent w @ new \<and> (\<forall>ev \<in> set new. int (params ev) \<le> gMaxPlaceholders)"
proof -
  define st0 where "st0 = \<lparr>b_i = 0, b_p = 0, b_ep = 0, b_changes = False,
                 b_query = [], b_args = [], b_batches = 0\<rparr>"
  have inv0: "batch_inv (c_nColumns c) st0" by (simp add: st0_def batch_inv_def)
  obtain lr w1 where l: "rows_loop sy c (rs_rows rows) st0 w = (lr, w1)"
    by (cases "rows_loop sy c (rs_rows rows) st0 w")
  from rows_loop_bound [OF l inv0 assms(2)] obtain new where
    n: "sent w1 = sent w @ new" "\<forall>ev \<in> set new. int (params ev) \<le> gMaxPlaceholders"
    and i: "case lr of Inr st' \<Rightarrow> batch_inv (c_nColumns c) st' | Inl e \<Rightarrow> True"
    by blast
  show ?thesis
  proof (cases lr)
    case (Inl e)
    then have "w' = w1" using assms(1) l by (simp add: upsert_def st0_def [symmetric])
    then show ?thesis using n by blast
  next
    case (Inr st)
    show ?thesis
    proof (cases "length (b_args st) > 0")
      case False
      then have "sent w' = sent w1"
        using assms(1) l Inr
        by (auto simp: upsert_def st0_def [symmetric] split: option.splits)
      then show ?thesis using n by auto
    next
      case True
      obtain fr w2 where fl: "flush sy c st w1 = (fr, w2)" by (cases "flush sy c st w1")
      have s2: "sent w2 = sent w1 @ [Exec (b_query st @ on_conflict (c_l c) (c_colNames c)) (b_args st)]"
        using flush_sent [OF fl] by simp
      have "sent w' = sent w2"
        using assms(1) l Inr True fl
        by (auto simp: upsert_def st0_def [symmetric] split: option.splits sum.splits)
      moreover have "int (length (b_args st)) \<le> gMaxPlaceholders"
        using i Inr True by (simp add: batch_inv_def)
      ultimately show ?thesis using n s2 by auto
    qed
  qed
qed

lemma calculate_parameters_bound:
  assumes "db_query sy (sent w) sqlQuery [] = Inr rows"
    and "rs_columns rows = Inr columns"
    and "6 + int (length columns) \<le> gMaxPlaceholders"
  shows "take (length (sent w))
           (sent (snd (calculate sy sqlQuery table projectSlug timeRange dtFrom dtTo ppt env w)))
         = sent w
       \<and> (\<forall>ev \<in> set (drop (length (sent w))
             (sent (snd (calculate sy sqlQuery table projectSlug timeRange dtFrom dtTo ppt env w)))).
            int (params ev) \<le> gMaxPlaceholders)"
proof -
  define w' where "w' = snd (calculate sy sqlQuery table projectSlug timeRange dtFrom dtTo ppt env w)"
  have "\<exists>new. sent w' = sent w @ new \<and> (\<forall>ev \<in> set new. int (params ev) \<le> gMaxPlaceholders)"
  proof (cases "createTable_sql env table ppt columns")
    case (Inl e)
    then have "sent w' = sent w @ [Query sqlQuery []]"
      using assms(1,2) by (simp add: w'_def calculate_def Query_db_def)
    then show ?thesis by (simp add: gMaxPlaceholders_def)
  next
    case (Inr p)
    obtain colNames createTable where p: "p = (colNames, createTable)" by (cases p)
    define w1 where "w1 = w\<lparr>sent := sent w @ [Query sqlQuery []]\<rparr>"
    define w2 where "w2 = w1\<lparr>sent := sent w1 @ [Exec createTable []]\<rparr>"
    show ?thesis
    proof (cases "db_exec sy (sent w1) createTable []")
      case (Inl e)
      then have "sent w' = sent w @ [Query sqlQuery [], Exec createTable []]"
        using assms(1,2) Inr p
        by (simp add: w'_def calculate_def Query_db_def Exec_db_def w1_def)
      then show ?thesis by (simp add: gMaxPlaceholders_def)
    next
      case (Inr res)
      define c where "c = \<lparr>c_table = table, c_timeRange = timeRange,
                                 c_projectSlug = projectSlug, c_calcDt = clock sy (ticks w2),
                                 c_dtFrom = dtFrom, c_dtTo = dtTo, c_colNames = colNames,
                                 c_l = int (length columns) - 1,
                                 c_nColumns = length columns\<rparr>"
      have "w' = snd (upsert sy c rows (w2\<lparr>ticks := Suc (ticks w2)\<rparr>))"
        using assms(1,2) \<open>createTable_sql env table ppt columns = Inr p\<close> p Inr
        by (simp add: w'_def calculate_def Query_db_def Exec_db_def Now_def w1_def w2_def c_def)
      then obtain r where u: "upsert sy c rows (w2\<lparr>ticks := Suc (ticks w2)\<rparr>) = (r, w')"
        by (cases "upsert sy c rows (w2\<lparr>ticks := Suc (ticks w2)\<rparr>)") simp
      have "6 + int (c_nColumns c) \<le> gMaxPlaceholders" using assms(3) by (simp add: c_def)
      from upsert_bound [OF u this] obtain new where
        "sent w' = sent (w2\<lparr>ticks := Suc (ticks w2)\<rparr>) @ new"
        "\<forall>ev \<in> set new. int (params ev) \<le> gMaxPlaceholders"
        by blast
      then have "sent w' = sent w @ ([Query sqlQuery [], Exec createTable []] @ new)"
        "\<forall>ev \<in> set ([Query sqlQuery [], Exec createTable []] @ new). int (params ev) \<le> gMaxPlaceholders"
        by (simp_all add: w2_def w1_def gMaxPlaceholders_def)
      then show ?thesis by blast
    qed
  qed
  then show ?thesis unfolding w'_def by auto
qed

lemma length_wide_columns: "length (wide_columns n) = n"
  by (simp add: wide_columns_def)

text \<open>
  C3.  Whatever rows the source query returns, every call that \<open>calculate\<close> sends to
  the database (the source query, the create-table statement and each batch) carries at
  most \<open>gMaxPlaceholders\<close> = 32768 bound parameters, although the threshold is tested
  only after the parameters of the current row, six and one per column, have been added.
  The result set is one that PostgreSQL can deliver: it has at most 1664 columns.
\<close>

theorem batch_parameters_bounded:
  assumes "\<And>rows columns. db_query sy (sent w) sqlQuery [] = Inr rows \<Longrightarrow>
             rs_columns rows = Inr columns \<Longrightarrow> length columns \<le> pg_max_result_columns"
  shows "gMaxPlaceholders = 32768
       \<and> take (length (sent w))
           (sent (snd (calculate sy sqlQuery table projectSlug timeRange dtFrom dtTo ppt env w)))
         = sent w
       \<and> (\<forall>ev \<in> set (drop (length (sent w))
             (sent (snd (calculate sy sqlQuery table projectSlug timeRange dtFrom dtTo ppt env w)))).
            int (params ev) \<le> gMaxPlaceholders)"
proof (cases "db_query sy (sent w) sqlQuery []")
  case (Inl e)
  then have "sent (snd (calculate sy sqlQuery table projectSlug timeRange dtFrom dtTo ppt env w))
      = sent w @ [Query sqlQuery []]"
    by (simp add: calculate_def Query_db_def)
  then show ?thesis by (simp add: gMaxPlaceholders_def)
next
  case (Inr rows)
  show ?thesis
  proof (cases "rs_columns rows")
    case (Inl e)
    then have "sent (snd (calculate sy sqlQuery table projectSlug timeRange dtFrom dtTo ppt env w))
        = sent w @ [Query sqlQuery []]"
      using Inr by (simp add: calculate_def Query_db_def)
    then show ?thesis by (simp add: gMaxPlaceholders_def)
  next
    case c: (Inr columns)
    have "length columns \<le> pg_max_result_columns"
      using Inr c by (rule assms)
    then have "6 + int (length columns) \<le> gMaxPlaceholders"
      by (simp add: pg_max_result_columns_def gMaxPlaceholders_def)
    from calculate_parameters_bound [OF Inr c this] show ?thesis
      by (simp add: gMaxPlaceholders_def)
  qed
qed

lemma wide_query:
  "db_query (wide_sys n) before q args
     = Inr \<lparr>rs_columns = Inr (wide_columns n), rs_rows = [Inr (replicate n [])], rs_err = None\<rparr>"
  by (simp add: wide_sys_def fresh_sys_def)

theorem batch_parameters_bounded_witness:
  "length (wide_columns 1664) \<le> pg_max_result_columns
   \<and> db_query (wide_sys 1664) (sent world0) ''select 1'' []
     = Inr \<lparr>rs_columns = Inr (wide_columns 1664), rs_rows = [Inr (replicate 1664 [])],
            rs_err = None\<rparr>
   \<and> list_all (\<lambda>ev. int (params ev) \<le> 32768)
       (drop (length (sent world0))
         (sent (snd (calculate (wide_sys 1664) ''select 1'' ''t'' ''envoy'' ''a'' ''1970-01-01''
            ''2100-01-01'' False Map.empty world0))))"
proof -
  have h: "length columns \<le> pg_max_result_columns"
    if "db_query (wide_sys 1664) (sent world0) ''select 1'' [] = Inr rows"
      and "rs_columns rows = Inr columns" for rows columns
    using that by (auto simp: wide_query length_wide_columns pg_max_result_columns_def)
  show ?thesis
    using batch_parameters_bounded [of "wide_sys 1664" world0 "''select 1''" "''t''" "''envoy''"
        "''a''" "''1970-01-01''" "''2100-01-01''" False Map.empty, OF h]
    by (simp add: list_all_iff wide_query length_wide_columns pg_max_result_columns_def)
qed

section \<open>Claims about the freshness check\<close>

lemma fetch_loop_ok:
  "fetch_loop (map (\<lambda>r. Inr [f r]) rs) fetched = Inr (fetched \<or> rs \<noteq> [])"
  by (induction rs arbitrary: fetched) (auto simp: Scan_def)

lemma fetch_loop_error:
  "\<exists>r \<in> set rs. \<forall>v. Scan 1 r \<noteq> Inr v \<Longrightarrow> \<exists>e. fetch_loop rs fetched = Inl e"
proof (induction rs arbitrary: fetched)
  case Nil
  then show ?case by simp
next
  case (Cons r rs)
  then show ?case by (cases "Scan 1 r") auto
qed

lemma sql_condition_text:
  "sql_condition ''project_slug = $1'' = Some (''project_slug'', 1)"
  "sql_condition ''time_range = $2'' = Some (''time_range'', 2)"
  "sql_condition ''date_from = $3'' = Some (''date_from'', 3)"
  "sql_condition ''date_to = $4'' = Some (''date_to'', 4)"
  by code_simp+

lemma pg_select_key:
  assumes \<open>CHR 0x22 \<notin> set table\<close>
  shows \<open>pg_select tables
     (''select last_calculated_at from "'' @ table @
      ''" where project_slug = $1 and time_range = $2 and date_from = $3 and date_to = $4'')
     [AStr projectSlug, AStr timeRange, ATime dtf, ATime dtt]
   = (case tables table of
        None \<Rightarrow> Inl (PqError ''undefined_table'')
      | Some rs \<Rightarrow>
          Inr \<lparr>rs_columns =
                 Inr [\<lparr>col_name = ''last_calculated_at'', col_dbtype = ''TIMESTAMP'',
                       col_nullable = Some False\<rparr>],
               rs_rows = map (\<lambda>r. Inr [k_last_calculated_at r])
                           (filter (has_key projectSlug timeRange dtf dtt) rs),
               rs_err = None\<rparr>)\<close>
proof -
  have t: \<open>takeWhile (\<lambda>c. c \<noteq> CHR 0x22) (table @ CHR 0x22 # rest) = table\<close> for rest
    using assms by (induction table) auto
  show ?thesis
    by (simp add: pg_select_def HasPrefix_def t Let_def sql_condition_text known_column_def
        sql_holds_def column_value_def has_key_def [abs_def]
        split: option.splits)
qed

lemma fetch_loop_rows:
  "\<forall>r \<in> set rs. \<exists>v. Scan 1 r = Inr v \<Longrightarrow> fetch_loop rs fetched = Inr (fetched \<or> rs \<noteq> [])"
  by (induction rs arbitrary: fetched) auto

text \<open>
  C5.  \<open>isCalculated\<close> sends one query: the \<open>last_calculated_at\<close> of the rows of the
  table whose \<open>project_slug\<close>, \<open>time_range\<close>, \<open>date_from\<close> and \<open>date_to\<close> equal its
  arguments, the two dates taken at the start of their day (which leaves day-aligned
  bounds as they are).  When the query fails with \<open>undefined_table\<close> the result is false
  without an error.  Against a database that answers queries as PostgreSQL does over its
  tables, the result is false without an error when the table does not exist, and
  otherwise true exactly when the table holds a row with that key.  Every other failure
  of the query is returned as the error, with the result false, and so is a failure while
  the rows are read; when the rows are read without a failure the result is whether there
  was a row.
\<close>

theorem isCalculated_result:
  fixes sy :: sys and table projectSlug timeRange :: string and dtf dtt :: gotime and w :: world
    and tables :: "string \<rightharpoonup> key_row list" and err :: error and rows :: rowset
  defines \<open>sqlQuery \<equiv> ''select last_calculated_at from "'' @ table @
      ''" where project_slug = $1 and time_range = $2 and date_from = $3 and date_to = $4''\<close>
    and "args \<equiv> [AStr projectSlug, AStr timeRange, ATime (DayStart dtf), ATime (DayStart dtt)]"
  shows "snd (isCalculated sy table projectSlug timeRange dtf dtt w)
           = w\<lparr>sent := sent w @ [Query sqlQuery args]\<rparr>
    \<and> (day_aligned dtf \<longrightarrow> day_aligned dtt \<longrightarrow>
         args = [AStr projectSlug, AStr timeRange, ATime dtf, ATime dtt])
    \<and> (db_query sy (sent w) sqlQuery args = Inl (PqError ''undefined_table'') \<longrightarrow>
         fst (isCalculated sy table projectSlug timeRange dtf dtt w) = (False, None))
    \<and> ((\<forall>q a. db_query sy (sent w) q a = pg_select tables q a) \<longrightarrow> CHR 0x22 \<notin> set table \<longrightarrow>
         fst (isCalculated sy table projectSlug timeRange dtf dtt w)
           = (case tables table of
                None \<Rightarrow> (False, None)
              | Some rs \<Rightarrow>
                  (\<exists>r \<in> set rs. k_project_slug r = projectSlug \<and> k_time_range r = timeRange
                      \<and> k_date_from r = DayStart dtf \<and> k_date_to r = DayStart dtt, None)))
    \<and> (db_query sy (sent w) sqlQuery args = Inl err \<longrightarrow> err \<noteq> PqError ''undefined_table'' \<longrightarrow>
         fst (isCalculated sy table projectSlug timeRange dtf dtt w) = (False, Some err))
    \<and> (db_query sy (sent w) sqlQuery args = Inr rows \<longrightarrow>
         ((\<exists>r \<in> set (rs_rows rows). \<forall>v. Scan 1 r \<noteq> Inr v) \<or> rs_err rows \<noteq> None) \<longrightarrow>
         (\<exists>e. fst (isCalculated sy table projectSlug timeRange dtf dtt w) = (False, Some e)))
    \<and> (db_query sy (sent w) sqlQuery args = Inr rows \<longrightarrow>
         (\<forall>r \<in> set (rs_rows rows). \<exists>v. Scan 1 r = Inr v) \<longrightarrow> rs_err rows = None \<longrightarrow>
         fst (isCalculated sy table projectSlug timeRange dtf dtt w) = (rs_rows rows \<noteq> [], None))"
proof (intro conjI impI)
  have q: "isCalculated_sql table = sqlQuery"
    by (simp add: isCalculated_sql_def sqlQuery_def)
  note defs = isCalculated_def Let_def Query_db_def q args_def [symmetric]
  show "snd (isCalculated sy table projectSlug timeRange dtf dtt w)
           = w\<lparr>sent := sent w @ [Query sqlQuery args]\<rparr>"
    by (auto simp: defs split: sum.splits error.splits option.splits)
  {
    assume "day_aligned dtf" "day_aligned dtt"
    then show "args = [AStr projectSlug, AStr timeRange, ATime dtf, ATime dtt]"
      by (simp add: args_def DayStart_aligned)
  }
  {
    assume "db_query sy (sent w) sqlQuery args = Inl (PqError ''undefined_table'')"
    then show "fst (isCalculated sy table projectSlug timeRange dtf dtt w) = (False, None)"
      by (simp add: defs)
  }
  {
    assume a: "\<forall>q a. db_query sy (sent w) q a = pg_select tables q a"
      and t: "CHR 0x22 \<notin> set table"
    have p: "db_query sy (sent w) sqlQuery args
      = (case tables table of
          None \<Rightarrow> Inl (PqError ''undefined_table'')
        | Some rs \<Rightarrow>
            Inr \<lparr>rs_columns =
                   Inr [\<lparr>col_name = ''last_calculated_at'', col_dbtype = ''TIMESTAMP'',
                         col_nullable = Some False\<rparr>],
                 rs_rows = map (\<lambda>r. Inr [k_last_calculated_at r])
                             (filter (has_key projectSlug timeRange (DayStart dtf) (DayStart dtt)) rs),
                 rs_err = None\<rparr>)"
      unfolding sqlQuery_def args_def using a pg_select_key [OF t] by simp
    show "fst (isCalculated sy table projectSlug timeRange dtf dtt w)
           = (case tables table of
                None \<Rightarrow> (False, None)
              | Some rs \<Rightarrow>
                  (\<exists>r \<in> set rs. k_project_slug r = projectSlug \<and> k_time_range r = timeRange
                      \<and> k_date_from r = DayStart dtf \<and> k_date_to r = DayStart dtt, None))"
    proof (cases "tables table")
      case None
      then show ?thesis using p by (simp add: defs)
    next
      case (Some rs)
      have "filter (has_key projectSlug timeRange (DayStart dtf) (DayStart dtt)) rs \<noteq> []
          \<longleftrightarrow> (\<exists>r \<in> set rs. has_key projectSlug timeRange (DayStart dtf) (DayStart dtt) r)"
        by (simp add: filter_empty_conv)
      then show ?thesis
        using p Some by (simp add: defs fetch_loop_ok has_key_def)
    qed
  }
  {
    assume "db_query sy (sent w) sqlQuery args = Inl err" "err \<noteq> PqError ''undefined_table''"
    then show "fst (isCalculated sy table projectSlug timeRange dtf dtt w) = (False, Some err)"
      by (auto simp: defs split: error.splits)
  }
  {
    assume q: "db_query sy (sent w) sqlQuery args = Inr rows"
      and f: "(\<exists>r \<in> set (rs_rows rows). \<forall>v. Scan 1 r \<noteq> Inr v) \<or> rs_err rows \<noteq> None"
    show "\<exists>e. fst (isCalculated sy table projectSlug timeRange dtf dtt w) = (False, Some e)"
    proof (cases "\<exists>r \<in> set (rs_rows rows). \<forall>v. Scan 1 r \<noteq> Inr v")
      case True
      from fetch_loop_error [OF this] obtain e where "fetch_loop (rs_rows rows) False = Inl e"
        by blast
      then show ?thesis using q by (simp add: defs)
    next
      case False
      then have "rs_err rows \<noteq> None" using f by blast
      then show ?thesis using q by (auto simp: defs split: sum.splits)
    qed
  }
  {
    assume q: "db_query sy (sent w) sqlQuery args = Inr rows"
      and s: "\<forall>r \<in> set (rs_rows rows). \<exists>v. Scan 1 r = Inr v" and e: "rs_err rows = None"
    show "fst (isCalculated sy table projectSlug timeRange dtf dtt w) = (rs_rows rows \<noteq> [], None)"
      using q e fetch_loop_rows [OF s, of False] by (simp add: defs)
  }
qed

theorem isCalculated_result_witness:
  \<open>(\<forall>q a. db_query (table_sys one_row_tables) (sent world0) q a = pg_select one_row_tables q a)
   \<and> CHR 0x22 \<notin> set ''t''
   \<and> day_aligned (Date 2023 10 1 0 0 0 0 UTC) \<and> day_aligned (Date 2023 11 1 0 0 0 0 UTC)
   \<and> snd (isCalculated (table_sys one_row_tables) ''t'' ''envoy'' ''c''
         (Date 2023 10 1 0 0 0 0 UTC) (Date 2023 11 1 0 0 0 0 UTC) world0)
      = world0\<lparr>sent := sent world0 @
          [Query ''select last_calculated_at from "t" where project_slug = $1 and time_range = $2 and date_from = $3 and date_to = $4''
             [AStr ''envoy'', AStr ''c'', ATime (Date 2023 10 1 0 0 0 0 UTC),
              ATime (Date 2023 11 1 0 0 0 0 UTC)]]\<rparr>
   \<and> fst (isCalculated (table_sys one_row_tables) ''t'' ''envoy'' ''c''
         (Date 2023 10 1 0 0 0 0 UTC) (Date 2023 11 1 0 0 0 0 UTC) world0) = (True, None)
   \<and> fst (isCalculated (table_sys one_row_tables) ''t'' ''envoy'' ''7d''
         (Date 2023 10 1 0 0 0 0 UTC) (Date 2023 11 1 0 0 0 0 UTC) world0) = (False, None)
   \<and> fst (isCalculated (table_sys one_row_tables) ''t'' ''envoy'' ''c''
         (Date 2023 10 1 0 0 0 0 UTC) (Date 2023 12 1 0 0 0 0 UTC) world0) = (False, None)
   \<and> fst (isCalculated (table_sys Map.empty) ''t'' ''envoy'' ''c''
         (Date 2023 10 1 0 0 0 0 UTC) (Date 2023 11 1 0 0 0 0 UTC) world0) = (False, None)
   \<and> DriverError ''bad connection'' \<noteq> PqError ''undefined_table''
   \<and> fst (isCalculated ((table_sys Map.empty)\<lparr>db_query := (\<lambda>before q args. Inl (DriverError ''bad connection''))\<rparr>)
         ''t'' ''envoy'' ''c'' (Date 2023 10 1 0 0 0 0 UTC) (Date 2023 11 1 0 0 0 0 UTC) world0)
       = (False, Some (DriverError ''bad connection''))
   \<and> (\<exists>e. fst (isCalculated ((table_sys Map.empty)\<lparr>db_query := (\<lambda>before q args.
           Inr \<lparr>rs_columns = Inr [], rs_rows = [Inl (DriverError ''unexpected EOF'')],
                rs_err = None\<rparr>)\<rparr>)
         ''t'' ''envoy'' ''c'' (Date 2023 10 1 0 0 0 0 UTC) (Date 2023 11 1 0 0 0 0 UTC) world0)
       = (False, Some e))\<close>
proof -
  let ?f = "Date 2023 10 1 0 0 0 0 UTC" and ?t = "Date 2023 11 1 0 0 0 0 UTC"
  let ?d = "Date 2023 12 1 0 0 0 0 UTC"
  let ?bad = "(table_sys Map.empty)\<lparr>db_query := (\<lambda>before q args. Inl (DriverError ''bad connection''))\<rparr>"
  let ?rows = "\<lparr>rs_columns = Inr [], rs_rows = [Inl (DriverError ''unexpected EOF'')], rs_err = None\<rparr>"
  let ?eof = "(table_sys Map.empty)\<lparr>db_query := (\<lambda>before q args. Inr ?rows)\<rparr>"
  have q: "db_query (table_sys tb) before q a = pg_select tb q a" for tb before q a
    by (simp add: table_sys_def fresh_sys_def)
  have b: "db_query ?bad before q a = Inl (DriverError ''bad connection'')" for before q a
    by simp
  have e: "db_query ?eof before q a = Inr ?rows" for before q a
    by simp
  have s: "\<forall>v. Scan 1 (Inl (DriverError ''unexpected EOF'')) \<noteq> Inr v"
    by (simp add: Scan_def)
  have al: "day_aligned ?f" "day_aligned ?t" "day_aligned ?d"
    by (rule day_aligned_Date)+
  have ds: "DayStart ?f = ?f" "DayStart ?t = ?t" "DayStart ?d = ?d"
    by (rule DayStart_aligned, rule day_aligned_Date)+
  have ne: "Date 2023 11 1 0 0 0 0 UTC \<noteq> Date 2023 12 1 0 0 0 0 UTC"
    by code_simp
  let ?e0 = "DriverError ''bad connection''"
  let ?sy = "table_sys one_row_tables"
  have r1: "snd (isCalculated ?sy ''t'' ''envoy'' ''c'' ?f ?t world0)
      = world0\<lparr>sent := sent world0 @
          [Query (''select last_calculated_at from '' @ [CHR 0x22] @ ''t'' @ [CHR 0x22] @
                  '' where project_slug = $1 and time_range = $2 and date_from = $3 and date_to = $4'')
             [AStr ''envoy'', AStr ''c'', ATime ?f, ATime ?t]]\<rparr>
      \<and> fst (isCalculated ?sy ''t'' ''envoy'' ''c'' ?f ?t world0) = (True, None)"
    using isCalculated_result [of ?sy "''t''" "''envoy''" "''c''" ?f ?t world0 one_row_tables ?e0 ?rows]
    by (simp add: q ds one_row_tables_def)
  have r2: "fst (isCalculated ?sy ''t'' ''envoy'' ''7d'' ?f ?t world0) = (False, None)"
    using isCalculated_result [of ?sy "''t''" "''envoy''" "''7d''" ?f ?t world0 one_row_tables ?e0 ?rows]
    by (simp add: q ds one_row_tables_def)
  have r3: "fst (isCalculated ?sy ''t'' ''envoy'' ''c'' ?f ?d world0) = (False, None)"
    using isCalculated_result [of ?sy "''t''" "''envoy''" "''c''" ?f ?d world0 one_row_tables ?e0 ?rows]
    by (simp add: q ds ne one_row_tables_def)
  have r4: "fst (isCalculated (table_sys Map.empty) ''t'' ''envoy'' ''c'' ?f ?t world0) = (False, None)"
    using isCalculated_result [of "table_sys Map.empty" "''t''" "''envoy''" "''c''" ?f ?t world0
        Map.empty ?e0 ?rows]
    by (simp add: q ds)
  have r5: "fst (isCalculated ?bad ''t'' ''envoy'' ''c'' ?f ?t world0) = (False, Some ?e0)"
    using isCalculated_result [of ?bad "''t''" "''envoy''" "''c''" ?f ?t world0 Map.empty ?e0 ?rows]
    by (simp add: b)
  have r6: "\<exists>e. fst (isCalculated ?eof ''t'' ''envoy'' ''c'' ?f ?t world0) = (False, Some e)"
    using isCalculated_result [of ?eof "''t''" "''envoy''" "''c''" ?f ?t world0 Map.empty ?e0 ?rows]
    by (simp add: e Scan_def)
  show ?thesis
    using r1 r2 r3 r4 r5 r6 al by (simp add: q)
qed

end
